theory Spec2Isabelle
  imports Complex_Main "HOL-Library.Sublist" "HOL-Library.Word"
begin

section \<open>Strings\<close>

text \<open>
  A JavaScript string is the list of its UTF-16 code units, which is what \<open>.length\<close>,
  \<open>includes\<close>, \<open>split\<close>, \<open>trim\<close> and a regular expression without the \<open>u\<close> flag work on.
  \<open>str\<close> is the string of an ASCII literal of the source.
\<close>

type_synonym jstring = "16 word list"

definition str :: "string \<Rightarrow> jstring" where
  "str s = map of_char s"

text \<open>
  \<open>String.prototype.toLowerCase\<close> is the runtime's: it follows the case mappings of Unicode
  (the Kelvin sign becomes \<open>k\<close>, for one), which are not part of the program. The functions
  that call it take it as the parameter \<open>lower\<close>, and what is proved holds for every such
  function. On ASCII text it is \<open>lower_ascii\<close>, which the examples use.
\<close>

definition lower_unit :: "16 word \<Rightarrow> 16 word" where
  "lower_unit c = (if 0x41 \<le> c \<and> c \<le> 0x5A then c + 0x20 else c)"

definition lower_ascii :: "jstring \<Rightarrow> jstring" where
  "lower_ascii s = map lower_unit s"

text \<open>\<open>s.includes(key)\<close>: is \<open>key\<close> found at some position of \<open>s\<close>?\<close>

fun includes_str :: "jstring \<Rightarrow> jstring \<Rightarrow> bool" where
  "includes_str [] key = (key = [])"
| "includes_str (c # cs) key = (prefix key (c # cs) \<or> includes_str cs key)"

text \<open>
  \<open>/(k1|k2|...)/.test(s)\<close> for a regular expression that is an alternation of literal
  words: the matcher tries every start position from the left and, at each position, the
  alternatives in the order they are written.
\<close>

fun regex_test :: "jstring list \<Rightarrow> jstring \<Rightarrow> bool" where
  "regex_test alts [] = list_ex (\<lambda>a. a = []) alts"
| "regex_test alts (c # cs) = (list_ex (\<lambda>a. prefix a (c # cs)) alts \<or> regex_test alts cs)"

text \<open>\<open>xs.join(sep)\<close>\<close>

fun join_with :: "jstring \<Rightarrow> jstring list \<Rightarrow> jstring" where
  "join_with sep [] = []"
| "join_with sep [x] = x"
| "join_with sep (x # y # ys) = x @ sep @ join_with sep (y # ys)"

text \<open>
  The white space of ECMAScript, which \<open>trim\<close> strips and the class \<open>\s\<close> matches: the
  productions WhiteSpace (tab, vertical tab, form feed, the byte order mark and the space
  separators of Unicode) and LineTerminator (line feed, carriage return, line and paragraph
  separator). All of them are single code units.
\<close>

definition is_space :: "16 word \<Rightarrow> bool" where
  "is_space c =
     (c \<in> set [0x0009, 0x000A, 0x000B, 0x000C, 0x000D, 0x0020, 0x00A0, 0x1680, 0x2028, 0x2029,
        0x202F, 0x205F, 0x3000, 0xFEFF]
      \<or> (0x2000 \<le> c \<and> c \<le> 0x200A))"

definition trim :: "jstring \<Rightarrow> jstring" where
  "trim s = rev (dropWhile is_space (rev (dropWhile is_space s)))"

text \<open>
  \<open>s.split(/[\s,]+/)\<close>: the pieces between maximal runs of separators; a separator at
  the start or at the end gives an empty first or last piece, and a string without
  separator is the only piece. \<open>cur\<close> is the piece being read, reversed; \<open>in_sep\<close> says that
  the previous code unit was a separator.
\<close>

definition is_sep :: "16 word \<Rightarrow> bool" where
  "is_sep c = (is_space c \<or> c = of_char (CHR '',''))"

fun split_go :: "jstring \<Rightarrow> bool \<Rightarrow> jstring \<Rightarrow> jstring list" where
  "split_go cur in_sep [] = [rev cur]"
| "split_go cur in_sep (c # cs) =
     (if is_sep c then (if in_sep then split_go cur True cs else rev cur # split_go [] True cs)
      else split_go (c # cur) False cs)"

definition split_seps :: "jstring \<Rightarrow> jstring list" where
  "split_seps s = split_go [] False s"

text \<open>\<open>[...new Set(xs)]\<close>: the elements in the order of their first occurrence.\<close>

fun uniq_acc :: "jstring list \<Rightarrow> jstring list \<Rightarrow> jstring list" where
  "uniq_acc seen [] = rev seen"
| "uniq_acc seen (x # xs) = (if x \<in> set seen then uniq_acc seen xs else uniq_acc (x # seen) xs)"

definition uniq :: "jstring list \<Rightarrow> jstring list" where
  "uniq xs = uniq_acc [] xs"

text \<open>The characters outside ASCII that the bot's messages contain; the glowing star is a
  surrogate pair.\<close>

definition SPARKLES :: jstring where "SPARKLES = [0x2728]"
definition GLOWING_STAR :: jstring where "GLOWING_STAR = [0xD83C, 0xDF1F]"
definition CHECK_MARK :: jstring where "CHECK_MARK = [0x2705]"
definition CROSS_MARK :: jstring where "CROSS_MARK = [0x274C]"
definition EM_DASH :: jstring where "EM_DASH = [0x2014]"
definition BULLET :: jstring where "BULLET = [0x2022]"

section \<open>Classification\<close>

definition HINDU_WORDS :: "jstring list" where
  "HINDU_WORDS = map str [''diwali'', ''deepavali'', ''navratri'', ''holi'', ''ram navami'',
     ''krishna'', ''janmashtami'', ''ganesh'', ''chaturthi'', ''mahashivratri'', ''dussehra'',
     ''vijayadashami'', ''pongal'', ''makar sankranti'', ''onam'', ''raksha bandhan'', ''karva'',
     ''karwa'']"

definition MUSLIM_WORDS :: "jstring list" where
  "MUSLIM_WORDS = map str [''eid'', ''fitr'', ''adha'', ''ramadan'', ''ramzan'', ''milad'',
     ''mawlid'', ''ashura'', ''muharram'', ''shab-e-barat'']"

definition CHRISTIAN_WORDS :: "jstring list" where
  "CHRISTIAN_WORDS = map str [''christ'', ''christmas'', ''easter'', ''good friday'',
     ''palm sunday'', ''epiphany'']"

text \<open>\<open>classifyFaith\<close>: the empty string is the absent result.\<close>

definition classifyFaith :: "(jstring \<Rightarrow> jstring) \<Rightarrow> jstring \<Rightarrow> jstring" where
  "classifyFaith lower nm =
     (let n = lower nm in
      if regex_test HINDU_WORDS n then str ''hindu''
      else if regex_test MUSLIM_WORDS n then str ''muslim''
      else if regex_test CHRISTIAN_WORDS n then str ''christian''
      else [])"

text \<open>An event as \<open>fetchCalendarific\<close> returns it, with a name.\<close>

record event =
  name :: jstring
  description :: jstring
  type :: "jstring list"
  primary_type :: jstring

definition ALLOW :: "jstring list" where
  "ALLOW = map str [
     ''diwali'', ''deepavali'', ''navratri'', ''holi'', ''dussehra'', ''vijayadashami'',
     ''janmashtami'', ''krishna janmashtami'', ''ram navami'', ''ganesh chaturthi'',
     ''maha shivaratri'', ''mahashivratri'', ''pongal'', ''makar sankranti'', ''onam'',
     ''raksha bandhan'', ''karva chauth'', ''karwa chauth'',
     ''eid al-fitr'', ''eid-ul-fitr'', ''eid al adha'', ''eid-ul-adha'', ''eid al-adha'',
     ''eid-e-milad'', ''milad-un-nabi'', ''mawlid an-nabi'', ''ashura'', ''muharram'',
     ''shab-e-barat'',
     ''christmas'', ''good friday'', ''easter'', ''palm sunday'']"

definition isMajorFestival :: "(jstring \<Rightarrow> jstring) \<Rightarrow> event \<Rightarrow> bool" where
  "isMajorFestival lower item =
     (let n = lower (name item) in
      if list_ex (\<lambda>key. includes_str n key) ALLOW then True
      else
        let t = lower (join_with (str '' '') (type item));
            p = lower (primary_type item)
        in if includes_str p (str ''relig'') \<and> \<not> includes_str t (str ''observance'') then True
           else if includes_str t (str ''national holiday'') then True
           else False)"

section \<open>Settings, cache and the outside world\<close>

record settings =
  channelId :: "jstring option"
  lang :: jstring
  religions :: "jstring list"
  mention :: jstring
  majorOnly :: bool

definition defaultsFor :: settings where
  "defaultsFor = \<lparr>channelId = None, lang = str ''hinglish'',
     religions = [str ''hindu'', str ''muslim'', str ''christian''], mention = str ''everyone'',
     majorOnly = True\<rparr>"

text \<open>
  An object of \<open>guildConfigs\<close>: each key of the settings is there or not, since the file the
  mapping is read from may hold objects with some keys only. \<open>spread d o\<close> is
  \<open>{ ...d, ...o }\<close>, and \<open>stored_of c\<close> is the object with every key of \<open>c\<close>.
\<close>

record overrides =
  o_channelId :: "jstring option option"
  o_lang :: "jstring option"
  o_religions :: "jstring list option"
  o_mention :: "jstring option"
  o_majorOnly :: "bool option"

definition no_overrides :: overrides where
  "no_overrides = \<lparr>o_channelId = None, o_lang = None, o_religions = None, o_mention = None,
     o_majorOnly = None\<rparr>"

definition spread :: "settings \<Rightarrow> overrides \<Rightarrow> settings" where
  "spread d ov = \<lparr>
     channelId = (case o_channelId ov of Some v \<Rightarrow> v | None \<Rightarrow> channelId d),
     lang = (case o_lang ov of Some v \<Rightarrow> v | None \<Rightarrow> lang d),
     religions = (case o_religions ov of Some v \<Rightarrow> v | None \<Rightarrow> religions d),
     mention = (case o_mention ov of Some v \<Rightarrow> v | None \<Rightarrow> mention d),
     majorOnly = (case o_majorOnly ov of Some v \<Rightarrow> v | None \<Rightarrow> majorOnly d)\<rparr>"

definition stored_of :: "settings \<Rightarrow> overrides" where
  "stored_of c = \<lparr>o_channelId = Some (channelId c), o_lang = Some (lang c),
     o_religions = Some (religions c), o_mention = Some (mention c),
     o_majorOnly = Some (majorOnly c)\<rparr>"

datatype ChannelType = GuildText | DM | GuildVoice | GroupDM | GuildCategory | GuildAnnouncement
  | AnnouncementThread | PublicThread | PrivateThread | GuildStageVoice | GuildDirectory
  | GuildForum | GuildMedia

record channel =
  ch_id :: jstring
  ch_name :: jstring
  ch_type :: ChannelType

record embed =
  embed_title :: jstring
  embed_description :: jstring
  embed_color :: nat
  embed_footer :: jstring
  embed_image :: "jstring option"

record reply =
  content :: jstring
  ephemeral :: bool

record photo =
  width :: int
  height :: int
  landscape :: jstring
  large :: jstring

text \<open>
  What the program does to the outside, in the order it does it. A provider is asked at the
  moment \<open>length (trace s)\<close>, and the world answers as a function of that moment and of the
  request, so that the same request may be answered differently later. Console output is
  not part of the model, so a send that is rejected, which is only logged, leaves no mark.
  Writing a file is taken to succeed: \<open>configFile\<close> and \<open>cacheFile\<close> are what the two files
  hold.

  The setters of \<open>EmbedBuilder\<close> check what they are given and throw when they refuse it (a
  description that is too long, for one). What is refused is the library's matter:
  \<open>embed_refused\<close> says it of the values \<open>buildEmbed\<close> gives to the setters.
\<close>

datatype io =
    GenerateContent jstring jstring
  | MathRandom
  | PexelsSearch jstring jstring
  | ChannelsFetch jstring jstring
  | ChannelSend jstring "jstring option" embed
  | InteractionReply reply

datatype gen_result = GenThrew | GenText "jstring option"

datatype pexels_result = PexelsThrew | PexelsJson "photo list option"

datatype fetch_result = FetchThrew | Fetched "channel option"

record world =
  TZ :: jstring
  toLowerCase :: "jstring \<Rightarrow> jstring"
  genAI :: bool
  gemini :: "nat \<Rightarrow> jstring \<Rightarrow> jstring \<Rightarrow> gen_result"
  IMAGE_PROVIDER :: jstring
  PEXELS_KEY :: jstring
  pexels :: "nat \<Rightarrow> jstring \<Rightarrow> pexels_result"
  random :: "nat \<Rightarrow> real"
  channels_fetch :: "nat \<Rightarrow> jstring \<Rightarrow> jstring \<Rightarrow> fetch_result"
  embed_refused :: "embed \<Rightarrow> bool"

record state =
  guildConfigs :: "jstring \<Rightarrow> overrides option"
  configFile :: "jstring \<Rightarrow> overrides option"
  wishCache :: "jstring \<Rightarrow> jstring option"
  cacheFile :: "jstring \<Rightarrow> jstring option"
  trace :: "io list"

definition emit :: "io \<Rightarrow> state \<Rightarrow> state" where
  "emit e s = s\<lparr>trace := trace s @ [e]\<rparr>"

definition saveConfigs :: "state \<Rightarrow> state" where
  "saveConfigs s = s\<lparr>configFile := guildConfigs s\<rparr>"

definition cacheKey :: "jstring \<Rightarrow> jstring \<Rightarrow> jstring" where
  "cacheKey dateISO label = dateISO @ str ''|'' @ label"

definition cacheGet :: "state \<Rightarrow> jstring \<Rightarrow> jstring option" where
  "cacheGet s k = wishCache s k"

definition cacheSet :: "jstring \<Rightarrow> jstring \<Rightarrow> state \<Rightarrow> state" where
  "cacheSet k v s = (let c = (wishCache s)(k \<mapsto> v) in s\<lparr>wishCache := c, cacheFile := c\<rparr>)"

section \<open>Wish text\<close>

text \<open>
  \<open>makeAIWish\<close>. The instruction sent to the text provider is a function of the festival
  name and of the faith, which stand for it in the request. \<open>if (cached)\<close> takes an absent
  entry and an empty string for a miss.
\<close>

definition fallback :: "jstring \<Rightarrow> jstring" where
  "fallback nm = SPARKLES @ str '' '' @ nm @
     str '' ki hardik shubhkamnayein! Dil mein khushi, ghar mein barkat aur sabke liye sehat-sukoon bane rahe. Aaj ke din hum sab milkar positivity, pyaar aur unity ko celebrate karein. ''
     @ GLOWING_STAR"

definition use_fallback :: "jstring \<Rightarrow> jstring \<Rightarrow> state \<Rightarrow> jstring \<times> state" where
  "use_fallback key nm s = (fallback nm, cacheSet key (fallback nm) s)"

definition makeAIWish ::
  "world \<Rightarrow> jstring \<Rightarrow> jstring \<Rightarrow> jstring \<Rightarrow> state \<Rightarrow> jstring \<times> state" where
  "makeAIWish w dateISO nm faith s =
     (let key = cacheKey dateISO (str ''wish:'' @ nm) in
      case cacheGet s key of
        Some (c # cs) \<Rightarrow> (c # cs, s)
      | _ \<Rightarrow>
        if genAI w then
          (let s1 = emit (GenerateContent nm faith) s in
           case gemini w (length (trace s)) nm faith of
             GenText (Some raw) \<Rightarrow>
               (let text = trim raw in
                if text \<noteq> [] \<and> 220 \<le> length text then (text, cacheSet key text s1)
                else use_fallback key nm s1)
           | _ \<Rightarrow> use_fallback key nm s1)
        else use_fallback key nm s)"

section \<open>Festival image\<close>

text \<open>
  \<open>queryForImage\<close>: \<open>base[faith] || [...]\<close>, then the element at
  \<open>Math.floor(Math.random() * arr.length)\<close>; \<open>r\<close> is the number drawn. An index outside
  the array gives \<open>undefined\<close>, which the search request turns into the text "undefined".
  The faith is a result of \<open>classifyFaith\<close>, so \<open>base[faith]\<close> is a lookup among the three
  keys of \<open>base\<close>.
\<close>

definition base :: "jstring \<Rightarrow> jstring \<Rightarrow> jstring list option" where
  "base nm faith = map_of [
     (str ''hindu'', [nm @ str '' celebration India'', str ''diya lamps festival lights bokeh'',
        str ''rangoli festive decor'']),
     (str ''muslim'', [nm @ str '' celebration crescent moon mosque lights'',
        str ''eid lanterns (fanous) night sky'', str ''henna hands festive lights'']),
     (str ''christian'', [nm @ str '' celebration church lights'',
        str ''christmas tree warm lights ornaments'', str ''candles star nativity festive''])]
     faith"

definition templates :: "jstring \<Rightarrow> jstring \<Rightarrow> jstring list" where
  "templates nm faith =
     (case base nm faith of Some arr \<Rightarrow> arr
      | None \<Rightarrow> [nm @ str '' festival India celebration''])"

definition pick_index :: "real \<Rightarrow> nat \<Rightarrow> int" where
  "pick_index r n = \<lfloor>r * real n\<rfloor>"

definition queryForImage :: "jstring \<Rightarrow> jstring \<Rightarrow> real \<Rightarrow> jstring" where
  "queryForImage nm faith r =
     (let arr = templates nm faith; i = pick_index r (length arr) in
      if 0 \<le> i \<and> i < int (length arr) then arr ! nat i else str ''undefined'')"

definition photo_url :: "photo \<Rightarrow> jstring" where
  "photo_url p = (if landscape p \<noteq> [] then landscape p else if large p \<noteq> [] then large p else [])"

definition fetchPexelsImage :: "world \<Rightarrow> jstring \<Rightarrow> state \<Rightarrow> jstring \<times> state" where
  "fetchPexelsImage w query s =
     (if PEXELS_KEY w = [] then ([], s)
      else
        let s1 = emit (PexelsSearch query (str ''10'')) s in
        case pexels w (length (trace s)) query of
          PexelsThrew \<Rightarrow> ([], s1)
        | PexelsJson res \<Rightarrow>
            (case (case res of Some ps \<Rightarrow> ps | None \<Rightarrow> []) of
               [] \<Rightarrow> ([], s1)
             | p0 # ps \<Rightarrow>
                 (let pick = (case find (\<lambda>p. height p \<le> width p) (p0 # ps) of
                                Some p \<Rightarrow> p | None \<Rightarrow> p0)
                  in (photo_url pick, s1))))"

definition getFestivalImage ::
  "world \<Rightarrow> jstring \<Rightarrow> jstring \<Rightarrow> jstring \<Rightarrow> state \<Rightarrow> jstring \<times> state" where
  "getFestivalImage w dateISO nm faith s =
     (let key = cacheKey dateISO (str ''img:'' @ nm) in
      case cacheGet s key of
        Some (c # cs) \<Rightarrow> (c # cs, s)
      | _ \<Rightarrow>
        (let (url, s2) =
               (if IMAGE_PROVIDER w = str ''pexels'' then
                  (let query = queryForImage nm faith (random w (length (trace s)));
                       s1 = emit MathRandom s
                   in fetchPexelsImage w query s1)
                else ([], s))
         in (url, if url \<noteq> [] then cacheSet key url s2 else s2)))"

section \<open>Delivery\<close>

definition buildEmbed :: "jstring \<Rightarrow> jstring \<Rightarrow> jstring \<Rightarrow> jstring \<Rightarrow> jstring \<Rightarrow> embed" where
  "buildEmbed festivalName faith wishText imageUrl dateStr =
     \<lparr>embed_title = festivalName @ str '' '' @ EM_DASH @ str '' Wishes'',
      embed_description = wishText,
      embed_color = (if faith = str ''hindu'' then 0xF59E0B
                     else if faith = str ''muslim'' then 0x10B981
                     else if faith = str ''christian'' then 0x60A5FA
                     else 0xA78BFA),
      embed_footer =
        str ''Auto-generated '' @ BULLET @ str '' '' @ dateStr @ str '' '' @ BULLET @ str '' IST'',
      embed_image = (if imageUrl \<noteq> [] then Some imageUrl else None)\<rparr>"

record guild =
  g_id :: jstring
  g_name :: jstring
  channels_cache :: "channel list"

definition resolveChannel ::
  "world \<Rightarrow> guild \<Rightarrow> jstring option \<Rightarrow> state \<Rightarrow> channel option \<times> state" where
  "resolveChannel w g cid s =
     (case cid of
        None \<Rightarrow> (None, s)
      | Some [] \<Rightarrow> (None, s)
      | Some (c # cs) \<Rightarrow>
          (let s1 = emit (ChannelsFetch (g_id g) (c # cs)) s in
           case channels_fetch w (length (trace s)) (g_id g) (c # cs) of
             FetchThrew \<Rightarrow> (None, s1)
           | Fetched None \<Rightarrow> (None, s1)
           | Fetched (Some ch) \<Rightarrow> if ch_type ch \<noteq> GuildText then (None, s1) else (Some ch, s1)))"

text \<open>The filter of \<open>runDaily\<close>, and the settings a guild is processed with.\<close>

definition effective :: "(jstring \<Rightarrow> overrides option) \<Rightarrow> jstring \<Rightarrow> settings" where
  "effective gc gid = spread defaultsFor (case gc gid of Some ov \<Rightarrow> ov | None \<Rightarrow> no_overrides)"

definition keeps :: "(jstring \<Rightarrow> jstring) \<Rightarrow> settings \<Rightarrow> event \<Rightarrow> bool" where
  "keeps lower cfg f =
     (let faith = classifyFaith lower (name f);
          faithOk = (if faith \<noteq> [] then faith \<in> set (religions cfg) else False);
          majorOk = (if majorOnly cfg then isMajorFestival lower f else True)
      in faithOk \<and> majorOk)"

definition fallback_channel :: "(jstring \<Rightarrow> jstring) \<Rightarrow> guild \<Rightarrow> channel option" where
  "fallback_channel lower g =
     find (\<lambda>c. ch_type c = GuildText
              \<and> lower (ch_name c) \<in> set [str ''announcements'', str ''general''])
       (channels_cache g)"

definition mention_text :: "settings \<Rightarrow> jstring" where
  "mention_text cfg =
     (if mention cfg = str ''everyone'' then str ''@everyone''
      else if mention cfg = str ''here'' then str ''@here'' else [])"

text \<open>
  How a part of the run ends: it is done, or something was thrown and not caught in it.
  Either way the state is what was written and sent so far.
\<close>

datatype outcome = Done state | Threw state

fun state_of :: "outcome \<Rightarrow> state" where
  "state_of (Done s) = s"
| "state_of (Threw s) = s"

fun completed :: "outcome \<Rightarrow> bool" where
  "completed (Done s) = True"
| "completed (Threw s) = False"

text \<open>
  The loop over the festivals of one guild: wish, image, embed, send. When \<open>buildEmbed\<close>
  throws nothing catches it in the loop, and the rest of the loop is not run.
\<close>

fun post_all ::
  "world \<Rightarrow> jstring \<Rightarrow> jstring \<Rightarrow> channel \<Rightarrow> jstring \<Rightarrow> event list \<Rightarrow> state \<Rightarrow> outcome" where
  "post_all w dateISO dateStr chan ment [] s = Done s"
| "post_all w dateISO dateStr chan ment (fest # fests) s =
     (let faith = classifyFaith (toLowerCase w) (name fest);
          (wishText, s1) = makeAIWish w dateISO (name fest) faith s;
          (imageUrl, s2) = getFestivalImage w dateISO (name fest) faith s1;
          e = buildEmbed (name fest) faith wishText imageUrl dateStr
      in if embed_refused w e then Threw s2
         else post_all w dateISO dateStr chan ment fests
                (emit (ChannelSend (ch_id chan) (if ment \<noteq> [] then Some ment else None) e) s2))"

text \<open>The body of the loop over the guilds; the settings are stored and saved after the
  loop over the festivals, when that loop is done.\<close>

definition guild_step ::
  "world \<Rightarrow> jstring \<Rightarrow> jstring \<Rightarrow> event list \<Rightarrow> guild \<Rightarrow> state \<Rightarrow> outcome" where
  "guild_step w dateISO dateStr rawFestivals g s =
     (let cfg = effective (guildConfigs s) (g_id g);
          festivals = filter (keeps (toLowerCase w) cfg) rawFestivals
      in if festivals = [] then Done s
         else
           let (chan0, s1) = resolveChannel w g (channelId cfg) s;
               chan = (case chan0 of Some c \<Rightarrow> Some c
                       | None \<Rightarrow> fallback_channel (toLowerCase w) g)
           in case chan of
                None \<Rightarrow> Done s1
              | Some c \<Rightarrow>
                  (case post_all w dateISO dateStr c (mention_text cfg) festivals s1 of
                     Threw s2 \<Rightarrow> Threw s2
                   | Done s2 \<Rightarrow>
                       Done (saveConfigs
                         (s2\<lparr>guildConfigs := (guildConfigs s2)(g_id g \<mapsto> stored_of cfg)\<rparr>))))"

text \<open>The loop over the guilds the client has joined.\<close>

fun run_guilds ::
  "world \<Rightarrow> jstring \<Rightarrow> jstring \<Rightarrow> event list \<Rightarrow> guild list \<Rightarrow> state \<Rightarrow> outcome" where
  "run_guilds w dateISO dateStr rawFestivals [] s = Done s"
| "run_guilds w dateISO dateStr rawFestivals (g # gs) s =
     (case guild_step w dateISO dateStr rawFestivals g s of
        Threw s' \<Rightarrow> Threw s'
      | Done s' \<Rightarrow> run_guilds w dateISO dateStr rawFestivals gs s')"

text \<open>
  \<open>runDaily\<close>, from the events the event source returned for today and the guilds the
  client has joined: the loop in a \<open>try\<close> whose \<open>catch\<close> logs what was thrown, which ends
  the run.
\<close>

definition runDaily ::
  "world \<Rightarrow> jstring \<Rightarrow> jstring \<Rightarrow> event list \<Rightarrow> guild list \<Rightarrow> state \<Rightarrow> state" where
  "runDaily w dateISO dateStr rawFestivals gs s =
     (case run_guilds w dateISO dateStr rawFestivals gs s of
        Done s' \<Rightarrow> s'
      | Threw s' \<Rightarrow> s')"

section \<open>Configuration commands\<close>

text \<open>
  An interaction: the options it carries, by name. \<open>getChannel(n, true)\<close>,
  \<open>getString(n, true)\<close> and \<open>getBoolean(n, true)\<close> throw when the option is not there, and
  the handler's \<open>catch\<close> replies that something went wrong.
\<close>

record interaction =
  isChatInputCommand :: bool
  isRepliable :: bool
  guildId :: "jstring option"
  commandName :: jstring
  channel_options :: "jstring \<Rightarrow> channel option"
  string_options :: "jstring \<Rightarrow> jstring option"
  boolean_options :: "jstring \<Rightarrow> bool option"

definition send_reply :: "jstring \<Rightarrow> state \<Rightarrow> state" where
  "send_reply msg s = emit (InteractionReply \<lparr>content = msg, ephemeral = True\<rparr>) s"

definition went_wrong :: "interaction \<Rightarrow> state \<Rightarrow> state" where
  "went_wrong i s =
     (if isRepliable i then send_reply (CROSS_MARK @ str '' Something went wrong.'') s else s)"

definition modify :: "jstring \<Rightarrow> (settings \<Rightarrow> settings) \<Rightarrow> state \<Rightarrow> state" where
  "modify gid f s =
     s\<lparr>guildConfigs := (guildConfigs s)(gid \<mapsto> stored_of (f (effective (guildConfigs s) gid)))\<rparr>"

definition allowed :: "jstring list" where
  "allowed = [str ''hindu'', str ''muslim'', str ''christian'']"

definition setwisheschannel :: "world \<Rightarrow> interaction \<Rightarrow> jstring \<Rightarrow> state \<Rightarrow> state" where
  "setwisheschannel w i gid s =
     (case channel_options i (str ''channel'') of
        None \<Rightarrow> went_wrong i s
      | Some ch \<Rightarrow>
          if ch_type ch \<notin> set [GuildText, PublicThread, PrivateThread]
          then send_reply (str ''Please choose a text channel.'') s
          else send_reply
                 (CHECK_MARK @ str '' Will post in <#'' @ ch_id ch @ str ''> daily at **01:00 ''
                    @ TZ w @ str ''**.'')
                 (saveConfigs (modify gid (\<lambda>c. c\<lparr>channelId := Some (ch_id ch)\<rparr>) s)))"

definition setreligions :: "world \<Rightarrow> interaction \<Rightarrow> jstring \<Rightarrow> state \<Rightarrow> state" where
  "setreligions w i gid s =
     (case string_options i (str ''list'') of
        None \<Rightarrow> went_wrong i s
      | Some v \<Rightarrow>
          (let raw = toLowerCase w v;
               parsed = filter (\<lambda>x. x \<in> set allowed) (map trim (split_seps raw))
           in if parsed = [] then send_reply (str ''Use any of: hindu, muslim, christian'') s
              else
                let s1 = saveConfigs (modify gid (\<lambda>c. c\<lparr>religions := uniq parsed\<rparr>) s)
                in send_reply
                     (CHECK_MARK @ str '' Religions: '' @
                        join_with (str '', '') (religions (effective (guildConfigs s1) gid))) s1))"

definition setmention :: "world \<Rightarrow> interaction \<Rightarrow> jstring \<Rightarrow> state \<Rightarrow> state" where
  "setmention w i gid s =
     (case string_options i (str ''mention'') of
        None \<Rightarrow> went_wrong i s
      | Some v \<Rightarrow>
          (let m = toLowerCase w v in
           if m \<notin> set [str ''everyone'', str ''here'', str ''none'']
           then send_reply (str ''Choose: everyone | here | none'') s
           else send_reply (CHECK_MARK @ str '' Mention: '' @ m)
                  (saveConfigs (modify gid (\<lambda>c. c\<lparr>mention := m\<rparr>) s))))"

definition setmajor :: "interaction \<Rightarrow> jstring \<Rightarrow> state \<Rightarrow> state" where
  "setmajor i gid s =
     (case boolean_options i (str ''major_only'') of
        None \<Rightarrow> went_wrong i s
      | Some b \<Rightarrow>
          send_reply
            (CHECK_MARK @ str '' Major-only filter: '' @ (if b then str ''ON'' else str ''OFF''))
            (saveConfigs (modify gid (\<lambda>c. c\<lparr>majorOnly := b\<rparr>) s)))"

text \<open>The handler of \<open>InteractionCreate\<close>. The settings of the guild are stored in full
  before the command is looked at.\<close>

definition onInteraction :: "world \<Rightarrow> interaction \<Rightarrow> state \<Rightarrow> state" where
  "onInteraction w i s =
     (if \<not> isChatInputCommand i then s
      else case guildId i of
        None \<Rightarrow> s
      | Some [] \<Rightarrow> s
      | Some (c # cs) \<Rightarrow>
          (let gid = c # cs;
               s1 = modify gid (\<lambda>cfg. cfg) s
           in if commandName i = str ''setwisheschannel'' then setwisheschannel w i gid s1
              else if commandName i = str ''setreligions'' then setreligions w i gid s1
              else if commandName i = str ''setmention'' then setmention w i gid s1
              else if commandName i = str ''setmajor'' then setmajor i gid s1
              else s1))"

section \<open>Notions the properties are stated with\<close>

text \<open>The messages sent to channels, in order: channel id, mention, embed.\<close>

definition sends :: "io list \<Rightarrow> (jstring \<times> jstring option \<times> embed) list" where
  "sends tr = concat (map (\<lambda>x. case x of ChannelSend c m e \<Rightarrow> [(c, m, e)] | _ \<Rightarrow> []) tr)"

text \<open>The answers of the text provider that \<open>makeAIWish\<close> takes: a text that, trimmed, has at
  least 220 code units.\<close>

definition accepted :: "gen_result \<Rightarrow> bool" where
  "accepted r =
     (case r of GenText (Some raw) \<Rightarrow> trim raw \<noteq> [] \<and> 220 \<le> length (trim raw) | _ \<Rightarrow> False)"

text \<open>
  What can happen to the cache between two calls: \<open>cacheSet\<close> is called by \<open>makeAIWish\<close> and
  \<open>getFestivalImage\<close> only, with any arguments and in any world; and the process can start
  again, which reads both mappings from their files.
\<close>

definition reload :: "state \<Rightarrow> state" where
  "reload s = s\<lparr>guildConfigs := configFile s, wishCache := cacheFile s\<rparr>"

datatype cache_op =
    WishCall world jstring jstring jstring
  | ImageCall world jstring jstring jstring
  | Restart

fun run_ops :: "cache_op list \<Rightarrow> state \<Rightarrow> state" where
  "run_ops [] s = s"
| "run_ops (WishCall w d nm faith # ops) s = run_ops ops (snd (makeAIWish w d nm faith s))"
| "run_ops (ImageCall w d nm faith # ops) s = run_ops ops (snd (getFestivalImage w d nm faith s))"
| "run_ops (Restart # ops) s = run_ops ops (reload s)"

text \<open>The invariant of the settings: the enabled categories of every guild are in the
  vocabulary.\<close>

definition categories_ok :: "(jstring \<Rightarrow> overrides option) \<Rightarrow> bool" where
  "categories_ok gc = (\<forall>gid. set (religions (effective gc gid)) \<subseteq> set allowed)"

text \<open>An entry that later calls find: a non-empty value under the key, in the mapping and in
  its file.\<close>

definition pinned :: "jstring \<Rightarrow> jstring \<Rightarrow> state \<Rightarrow> bool" where
  "pinned k v s \<longleftrightarrow> v \<noteq> [] \<and> wishCache s k = Some v \<and> cacheFile s k = Some v"

text \<open>
  A guild is processed by the daily run when it is not skipped: some event passes its filter
  and a channel is found, the configured one or the one found by name.
\<close>

definition processed :: "world \<Rightarrow> event list \<Rightarrow> guild \<Rightarrow> state \<Rightarrow> bool" where
  "processed w raw g s =
     (let cfg = effective (guildConfigs s) (g_id g) in
      filter (keeps (toLowerCase w) cfg) raw \<noteq> []
      \<and> (fst (resolveChannel w g (channelId cfg) s) \<noteq> None
         \<or> fallback_channel (toLowerCase w) g \<noteq> None))"

text \<open>The settings \<open>c\<close> are written for the guild \<open>x\<close>: stored in full in the mapping and in
  its file.\<close>

definition written :: "jstring \<Rightarrow> settings \<Rightarrow> state \<Rightarrow> bool" where
  "written x c s \<longleftrightarrow> guildConfigs s x = Some (stored_of c) \<and> configFile s x = Some (stored_of c)"

text \<open>The title of the message for an event.\<close>

definition wish_title :: "event \<Rightarrow> jstring" where
  "wish_title f = name f @ str '' '' @ EM_DASH @ str '' Wishes''"

text \<open>A message in brief: channel id, mention and title.\<close>

definition brief :: "jstring \<times> jstring option \<times> embed \<Rightarrow> jstring \<times> jstring option \<times> jstring" where
  "brief x = (fst x, fst (snd x), embed_title (snd (snd x)))"

text \<open>The channel a guild's messages go to: the configured channel when it is resolved, else
  the one found by name.\<close>

definition target :: "world \<Rightarrow> guild \<Rightarrow> state \<Rightarrow> channel option" where
  "target w g s =
     (case fst (resolveChannel w g (channelId (effective (guildConfigs s) (g_id g))) s) of
        Some c \<Rightarrow> Some c
      | None \<Rightarrow> fallback_channel (toLowerCase w) g)"

text \<open>
  The input of a configuration command fails validation, and \<open>msg\<close> is the rejection of the
  command: a channel that is neither a text channel nor a public or private thread, a list
  none of whose pieces is in the vocabulary, a mention style that is none of the three.
\<close>

definition fails_validation :: "world \<Rightarrow> interaction \<Rightarrow> jstring \<Rightarrow> bool" where
  "fails_validation w i msg \<longleftrightarrow>
     (commandName i = str ''setwisheschannel''
        \<and> (\<exists>ch. channel_options i (str ''channel'') = Some ch
              \<and> ch_type ch \<notin> {GuildText, PublicThread, PrivateThread})
        \<and> msg = str ''Please choose a text channel.'')
     \<or> (commandName i = str ''setreligions''
        \<and> (\<exists>v. string_options i (str ''list'') = Some v
              \<and> (\<forall>x \<in> set (split_seps (toLowerCase w v)). trim x \<notin> set allowed))
        \<and> msg = str ''Use any of: hindu, muslim, christian'')
     \<or> (commandName i = str ''setmention''
        \<and> (\<exists>v. string_options i (str ''mention'') = Some v
              \<and> toLowerCase w v \<notin> {str ''everyone'', str ''here'', str ''none''})
        \<and> msg = str ''Choose: everyone | here | none'')"

section \<open>Example inputs\<close>

text \<open>
  A state with nothing stored. A world on ASCII text whose text provider throws and in
  which no embed is refused, and the same world with a text provider that answers with 220
  characters.
\<close>

definition s0 :: state where
  "s0 = \<lparr>guildConfigs = Map.empty, configFile = Map.empty, wishCache = Map.empty,
     cacheFile = Map.empty, trace = []\<rparr>"

definition w_down :: world where
  "w_down = \<lparr>TZ = str ''Asia/Kolkata'', toLowerCase = lower_ascii, genAI = True,
     gemini = (\<lambda>t nm faith. GenThrew), IMAGE_PROVIDER = str ''pexels'', PEXELS_KEY = [],
     pexels = (\<lambda>t q. PexelsThrew), random = (\<lambda>t. 0), channels_fetch = (\<lambda>t g c. FetchThrew),
     embed_refused = (\<lambda>e. False)\<rparr>"

definition w_up :: world where
  "w_up = w_down\<lparr>gemini := (\<lambda>t nm faith. GenText (Some (replicate 220 (of_char (CHR ''a'')))))\<rparr>"

text \<open>A text provider whose answer is 219 letters and a no-break space: trimmed, it is too
  short.\<close>

definition w_nbsp :: world where
  "w_nbsp = w_down\<lparr>gemini :=
     (\<lambda>t nm faith. GenText (Some (replicate 219 (of_char (CHR ''a'')) @ [0x00A0])))\<rparr>"

text \<open>Two photos, and a world whose image search answers with both; the same world with
  another image provider selected.\<close>

definition photo_portrait :: photo where
  "photo_portrait = \<lparr>width = 800, height = 1200,
     landscape = str ''https://images.pexels.com/photos/1/l.jpg'',
     large = str ''https://images.pexels.com/photos/1/x.jpg''\<rparr>"

definition photo_landscape :: photo where
  "photo_landscape = \<lparr>width = 1200, height = 800,
     landscape = str ''https://images.pexels.com/photos/2/l.jpg'',
     large = str ''https://images.pexels.com/photos/2/x.jpg''\<rparr>"

definition w_photo :: world where
  "w_photo = w_down\<lparr>PEXELS_KEY := str ''key'',
     pexels := (\<lambda>t q. PexelsJson (Some [photo_portrait, photo_landscape])),
     random := (\<lambda>t. 1 / 2)\<rparr>"

definition w_other :: world where
  "w_other = w_photo\<lparr>IMAGE_PROVIDER := str ''unsplash''\<rparr>"

text \<open>Interactions of a guild: a mention style that does not exist, a list of categories
  with a no-break space in it, and the choice of a thread as the channel.\<close>

definition i_base :: interaction where
  "i_base = \<lparr>isChatInputCommand = True, isRepliable = True, guildId = Some (str ''g1''),
     commandName = [], channel_options = Map.empty, string_options = Map.empty,
     boolean_options = Map.empty\<rparr>"

definition i_mention_bad :: interaction where
  "i_mention_bad = i_base\<lparr>commandName := str ''setmention'',
     string_options := [str ''mention'' \<mapsto> str ''Loud'']\<rparr>"

definition i_religions :: interaction where
  "i_religions = i_base\<lparr>commandName := str ''setreligions'',
     string_options := [str ''list'' \<mapsto> str ''Hindu,'' @ [0x00A0] @ str ''MUSLIM  jain,hindu'']\<rparr>"

definition thread1 :: channel where
  "thread1 = \<lparr>ch_id = str ''c7'', ch_name = str ''festival-thread'', ch_type = PublicThread\<rparr>"

definition i_thread :: interaction where
  "i_thread = i_base\<lparr>commandName := str ''setwisheschannel'',
     channel_options := [str ''channel'' \<mapsto> thread1]\<rparr>"

text \<open>A guild with a text channel named General, and the event of Diwali.\<close>

definition general1 :: channel where
  "general1 = \<lparr>ch_id = str ''c1'', ch_name = str ''General'', ch_type = GuildText\<rparr>"

definition g1 :: guild where
  "g1 = \<lparr>g_id = str ''g1'', g_name = str ''Gamers'', channels_cache = [thread1, general1]\<rparr>"

definition ev_diwali :: event where
  "ev_diwali = \<lparr>name = str ''Diwali/Deepavali'', description = [],
     type = [str ''Gazetted Holiday''], primary_type = str ''Gazetted Holiday''\<rparr>"

text \<open>A world in which fetching a channel gives the thread.\<close>

definition w_thread :: world where
  "w_thread = w_down\<lparr>channels_fetch := (\<lambda>t g c. Fetched (Some thread1))\<rparr>"

text \<open>
  A world whose text provider answers with 4097 characters and whose embeds take a
  description of at most 4096.
\<close>

definition w_long :: world where
  "w_long = w_down\<lparr>
     gemini := (\<lambda>t nm faith. GenText (Some (replicate 4097 (of_char (CHR ''a''))))),
     embed_refused := (\<lambda>e. 4096 < length (embed_description e))\<rparr>"

section \<open>Facts about the string layer\<close>

lemma includes_str_sublist: "includes_str s key \<longleftrightarrow> sublist key s"
  by (induction s) (auto simp: sublist_Cons_right)

lemma regex_test_sublist: "regex_test alts s \<longleftrightarrow> (\<exists>a \<in> set alts. sublist a s)"
  by (induction s) (auto simp: list_ex_iff sublist_Cons_right)

section \<open>Classification: theorems\<close>

text \<open>
  C3, as amended. \<open>classifyFaith\<close> lower-cases the name, with the lower-casing of the
  runtime whatever it does, and returns the first of hindu, muslim, christian, in this
  order, one of whose keywords occurs in the lower-cased name; when no keyword of any of the
  three occurs, it returns the empty string.
\<close>

theorem classifyFaith_first_match:
  "classifyFaith lower nm =
     (if \<exists>k \<in> set HINDU_WORDS. sublist k (lower nm) then str ''hindu''
      else if \<exists>k \<in> set MUSLIM_WORDS. sublist k (lower nm) then str ''muslim''
      else if \<exists>k \<in> set CHRISTIAN_WORDS. sublist k (lower nm) then str ''christian''
      else [])"
  by (simp add: classifyFaith_def Let_def regex_test_sublist)

theorem classifyFaith_first_match_witness:
  "(\<exists>k \<in> set MUSLIM_WORDS. sublist k (lower_ascii (str ''Eid al-Fitr'')))
   \<and> \<not> (\<exists>k \<in> set HINDU_WORDS. sublist k (lower_ascii (str ''Eid al-Fitr'')))
   \<and> classifyFaith lower_ascii (str ''Eid al-Fitr'') = str ''muslim''"
proof -
  have a: "\<not> (\<exists>k \<in> set HINDU_WORDS. sublist k (lower_ascii (str ''Eid al-Fitr'')))"
    by code_simp
  have b: "\<exists>k \<in> set MUSLIM_WORDS. sublist k (lower_ascii (str ''Eid al-Fitr''))"
    by code_simp
  from classifyFaith_first_match [of lower_ascii "str ''Eid al-Fitr''"]
  have "classifyFaith lower_ascii (str ''Eid al-Fitr'') = str ''muslim''"
    by (simp only: a b if_False if_True)
  with a b show ?thesis by blast
qed

text \<open>
  C3, as stated, fails: "Eid Holiday", lower-cased "eid holiday", contains the muslim
  keyword "eid", and it is classified hindu, since "holiday" contains the hindu keyword
  "holi" and the hindu expression is tested first.
\<close>

theorem classifyFaith_overlap_counterexample:
  "lower_ascii (str ''Eid Holiday'') = str ''eid holiday''
   \<and> str ''eid'' \<in> set MUSLIM_WORDS \<and> sublist (str ''eid'') (str ''eid holiday'')
   \<and> classifyFaith lower_ascii (str ''Eid Holiday'') = str ''hindu''"
  by code_simp

text \<open>
  C4. \<open>isMajorFestival\<close> holds exactly when the lower-cased name contains a word of the
  allow-list (whatever the other fields are), or the lower-cased primary type contains
  "relig" while the type tags, joined by spaces and lower-cased, do not contain
  "observance", or these joined type tags contain "national holiday". With none of the
  three it is false. The lower-casing is the runtime's, whatever it does.
\<close>

theorem isMajorFestival_signals:
  "isMajorFestival lower item \<longleftrightarrow>
     (\<exists>key \<in> set ALLOW. sublist key (lower (name item)))
     \<or> (sublist (str ''relig'') (lower (primary_type item))
        \<and> \<not> sublist (str ''observance'') (lower (join_with (str '' '') (type item))))
     \<or> sublist (str ''national holiday'') (lower (join_with (str '' '') (type item)))"
  unfolding isMajorFestival_def Let_def
  by (auto simp: list_ex_iff includes_str_sublist)

theorem isMajorFestival_signals_witness:
  "(\<exists>key \<in> set ALLOW.
      sublist key (lower_ascii (name \<lparr>name = str ''Diwali'', description = [],
        type = [str ''Observance''], primary_type = str ''Observance''\<rparr>)))
   \<and> isMajorFestival lower_ascii \<lparr>name = str ''Diwali'', description = [],
        type = [str ''Observance''], primary_type = str ''Observance''\<rparr>
   \<and> \<not> (\<exists>key \<in> set ALLOW.
      sublist key (lower_ascii (name \<lparr>name = str ''Guru Purnima'', description = [],
        type = [str ''Hindu Holiday''], primary_type = str ''Religious''\<rparr>)))
   \<and> isMajorFestival lower_ascii \<lparr>name = str ''Guru Purnima'', description = [],
        type = [str ''Hindu Holiday''], primary_type = str ''Religious''\<rparr>
   \<and> \<not> isMajorFestival lower_ascii \<lparr>name = str ''Guru Purnima'', description = [],
        type = [str ''Observance''], primary_type = str ''Observance''\<rparr>"
proof -
  let ?d = "\<lparr>name = str ''Diwali'', description = [], type = [str ''Observance''],
    primary_type = str ''Observance''\<rparr>"
  let ?g = "\<lparr>name = str ''Guru Purnima'', description = [], type = [str ''Hindu Holiday''],
    primary_type = str ''Religious''\<rparr>"
  let ?o = "\<lparr>name = str ''Guru Purnima'', description = [], type = [str ''Observance''],
    primary_type = str ''Observance''\<rparr>"
  have a: "\<exists>key \<in> set ALLOW. sublist key (lower_ascii (name ?d))" by code_simp
  have b: "\<not> (\<exists>key \<in> set ALLOW. sublist key (lower_ascii (name ?g)))" by code_simp
  have c: "sublist (str ''relig'') (lower_ascii (primary_type ?g))
    \<and> \<not> sublist (str ''observance'') (lower_ascii (join_with (str '' '') (type ?g)))"
    by code_simp
  have d: "\<not> (\<exists>key \<in> set ALLOW. sublist key (lower_ascii (name ?o)))
    \<and> \<not> sublist (str ''relig'') (lower_ascii (primary_type ?o))
    \<and> \<not> sublist (str ''national holiday'') (lower_ascii (join_with (str '' '') (type ?o)))"
    by code_simp
  from a have 1: "isMajorFestival lower_ascii ?d"
    by (simp only: isMajorFestival_signals [of lower_ascii ?d] simp_thms)
  from c have 2: "isMajorFestival lower_ascii ?g"
    by (simp only: isMajorFestival_signals [of lower_ascii ?g] simp_thms)
  from d have 3: "\<not> isMajorFestival lower_ascii ?o"
    by (simp only: isMajorFestival_signals [of lower_ascii ?o] simp_thms)
  from 1 2 3 a b show ?thesis by blast
qed

section \<open>What reaches the channels\<close>

lemma sends_append: "sends (a @ b) = sends a @ sends b"
  by (simp add: sends_def)

lemma trace_cacheSet: "trace (cacheSet k v s) = trace s"
  by (simp add: cacheSet_def Let_def)

lemma trace_emit: "trace (emit e s) = trace s @ [e]"
  by (simp add: emit_def)

lemma sends_makeAIWish: "sends (trace (snd (makeAIWish w d nm faith s))) = sends (trace s)"
  by (auto simp: makeAIWish_def use_fallback_def Let_def trace_cacheSet trace_emit sends_append
      sends_def split: option.splits list.splits gen_result.splits)

lemma sends_fetchPexelsImage: "sends (trace (snd (fetchPexelsImage w q s))) = sends (trace s)"
  by (auto simp: fetchPexelsImage_def Let_def trace_emit sends_append sends_def
      split: option.splits list.splits pexels_result.splits)

lemma sends_getFestivalImage:
  "sends (trace (snd (getFestivalImage w d nm faith s))) = sends (trace s)"
  using sends_fetchPexelsImage
    [of w "queryForImage nm faith (random w (length (trace s)))" "emit MathRandom s"]
  by (auto simp: getFestivalImage_def Let_def trace_cacheSet trace_emit sends_append sends_def
      split: option.splits list.splits prod.splits)

lemma sends_resolveChannel: "sends (trace (snd (resolveChannel w g cid s))) = sends (trace s)"
  by (auto simp: resolveChannel_def Let_def trace_emit sends_append sends_def
      split: option.splits list.splits fetch_result.splits)

lemma trace_saveConfigs: "trace (saveConfigs s) = trace s"
  by (simp add: saveConfigs_def)

text \<open>The loop sends one message per festival, in order, all to the channel it was given,
  up to the festival whose embed is refused.\<close>

lemma sends_post_all:
  "\<exists>n \<le> length fs.
     map brief (sends (trace (state_of (post_all w d ds chan ment fs s))))
       = map brief (sends (trace s))
         @ take n (map (\<lambda>f. (ch_id chan, if ment \<noteq> [] then Some ment else None, wish_title f)) fs)
     \<and> (completed (post_all w d ds chan ment fs s) \<longleftrightarrow> n = length fs)"
proof (induction fs arbitrary: s)
  case Nil
  then show ?case by simp
next
  case (Cons f fs)
  let ?faith = "classifyFaith (toLowerCase w) (name f)"
  obtain t s1 where a: "makeAIWish w d (name f) ?faith s = (t, s1)" by force
  obtain u s2 where b: "getFestivalImage w d (name f) ?faith s1 = (u, s2)" by force
  from a have a': "sends (trace s1) = sends (trace s)"
    using sends_makeAIWish [of w d "name f" ?faith s] by simp
  from b have b': "sends (trace s2) = sends (trace s1)"
    using sends_getFestivalImage [of w d "name f" ?faith s1] by simp
  let ?e = "buildEmbed (name f) ?faith t u ds"
  let ?m = "if ment \<noteq> [] then Some ment else None"
  show ?case
  proof (cases "embed_refused w ?e")
    case True
    then have "post_all w d ds chan ment (f # fs) s = Threw s2"
      by (simp add: Let_def a b)
    then show ?thesis
      unfolding \<open>post_all w d ds chan ment (f # fs) s = Threw s2\<close>
      by (intro exI [of _ 0]) (simp add: a' b')
  next
    case False
    let ?s3 = "emit (ChannelSend (ch_id chan) ?m ?e) s2"
    from False have p: "post_all w d ds chan ment (f # fs) s = post_all w d ds chan ment fs ?s3"
      by (simp add: Let_def a b)
    from Cons.IH [of ?s3] obtain n where n: "n \<le> length fs"
      "map brief (sends (trace (state_of (post_all w d ds chan ment fs ?s3))))
       = map brief (sends (trace ?s3))
         @ take n (map (\<lambda>f. (ch_id chan, ?m, wish_title f)) fs)"
      "completed (post_all w d ds chan ment fs ?s3) \<longleftrightarrow> n = length fs"
      by blast
    have t: "map brief (sends (trace ?s3))
        = map brief (sends (trace s)) @ [(ch_id chan, ?m, wish_title f)]"
      by (simp add: trace_emit sends_append a' b')
        (simp add: sends_def brief_def buildEmbed_def wish_title_def)
    show ?thesis
      unfolding p using n t by (intro exI [of _ "Suc n"]) simp
  qed
qed

section \<open>The filter of the daily run\<close>

lemma target_None_iff:
  "target w g s = None \<longleftrightarrow>
   fst (resolveChannel w g (channelId (effective (guildConfigs s) (g_id g))) s) = None
   \<and> fallback_channel (toLowerCase w) g = None"
  by (simp add: target_def split: option.splits)

lemma guild_step_sends:
  "\<exists>n \<le> length (filter (keeps (toLowerCase w) (effective (guildConfigs s) (g_id g))) raw).
     map brief (sends (trace (state_of (guild_step w d ds raw g s))))
       = map brief (sends (trace s))
         @ (case target w g s of
              None \<Rightarrow> []
            | Some c \<Rightarrow>
                take n (map (\<lambda>f. (ch_id c,
                    if mention_text (effective (guildConfigs s) (g_id g)) \<noteq> []
                    then Some (mention_text (effective (guildConfigs s) (g_id g))) else None,
                    wish_title f))
                  (filter (keeps (toLowerCase w) (effective (guildConfigs s) (g_id g))) raw)))
     \<and> (completed (guild_step w d ds raw g s)
          \<longleftrightarrow> n = length (filter (keeps (toLowerCase w) (effective (guildConfigs s) (g_id g))) raw))"
proof -
  let ?cfg = "effective (guildConfigs s) (g_id g)"
  let ?K = "filter (keeps (toLowerCase w) ?cfg) raw"
  let ?m = "if mention_text ?cfg \<noteq> [] then Some (mention_text ?cfg) else None"
  obtain ch s1 where r: "resolveChannel w g (channelId ?cfg) s = (ch, s1)" by force
  have s1: "sends (trace s1) = sends (trace s)"
    using sends_resolveChannel [of w g "channelId ?cfg" s] r by simp
  have tg: "target w g s = (case ch of Some c \<Rightarrow> Some c | None \<Rightarrow> fallback_channel (toLowerCase w) g)"
    by (simp add: target_def r)
  show ?thesis
  proof (cases "?K = []")
    case True
    then have "guild_step w d ds raw g s = Done s"
      by (simp add: guild_step_def Let_def)
    with True show ?thesis
      by (intro exI [of _ 0]) (simp split: option.splits)
  next
    case False
    show ?thesis
    proof (cases "target w g s")
      case None
      with False have "guild_step w d ds raw g s = Done s1"
        by (simp add: guild_step_def Let_def r tg)
      with None show ?thesis
        by (intro exI [of _ "length ?K"]) (simp add: s1)
    next
      case (Some c)
      from sends_post_all [of ?K w d ds c "mention_text ?cfg" s1]
      obtain n where n: "n \<le> length ?K"
        "map brief (sends (trace (state_of (post_all w d ds c (mention_text ?cfg) ?K s1))))
          = map brief (sends (trace s1)) @ take n (map (\<lambda>f. (ch_id c, ?m, wish_title f)) ?K)"
        "completed (post_all w d ds c (mention_text ?cfg) ?K s1) \<longleftrightarrow> n = length ?K"
        by blast
      have g: "guild_step w d ds raw g s =
          (case post_all w d ds c (mention_text ?cfg) ?K s1 of
             Threw s2 \<Rightarrow> Threw s2
           | Done s2 \<Rightarrow> Done (saveConfigs (s2\<lparr>guildConfigs := (guildConfigs s2)(g_id g \<mapsto> stored_of ?cfg)\<rparr>)))"
        using False Some by (simp add: guild_step_def Let_def r tg)
      have st: "sends (trace (state_of (guild_step w d ds raw g s)))
          = sends (trace (state_of (post_all w d ds c (mention_text ?cfg) ?K s1)))"
        by (simp add: g trace_saveConfigs split: outcome.splits)
      have co: "completed (guild_step w d ds raw g s)
          \<longleftrightarrow> completed (post_all w d ds c (mention_text ?cfg) ?K s1)"
        by (simp add: g split: outcome.splits)
      show ?thesis
        using n by (intro exI [of _ n]) (simp add: st co Some s1)
    qed
  qed
qed

lemma run_guilds_append:
  "run_guilds w d ds raw (xs @ ys) s =
   (case run_guilds w d ds raw xs s of
      Threw s' \<Rightarrow> Threw s'
    | Done s' \<Rightarrow> run_guilds w d ds raw ys s')"
  by (induction xs arbitrary: s) (simp_all split: outcome.splits)

lemma runDaily_snoc:
  "run_guilds w d ds raw pre s = Done s1 \<Longrightarrow>
   runDaily w d ds raw (pre @ [g]) s = state_of (guild_step w d ds raw g s1)"
  by (simp add: runDaily_def run_guilds_append split: outcome.splits)

lemma post_all_completes:
  "(\<And>e. \<not> embed_refused w e) \<Longrightarrow> completed (post_all w d ds c m fs s)"
  by (induction fs arbitrary: s) (simp_all add: Let_def case_prod_beta)

lemma guild_step_completes:
  assumes "\<And>e. \<not> embed_refused w e"
  shows "completed (guild_step w d ds raw g s)"
proof -
  have "completed (case post_all w d ds c m fs s1 of Threw s2 \<Rightarrow> Threw s2
      | Done s2 \<Rightarrow> Done (f s2))" for c m fs s1 f
    using post_all_completes [OF assms, of d ds c m fs s1]
    by (cases "post_all w d ds c m fs s1") simp_all
  then show ?thesis
    by (simp add: guild_step_def Let_def case_prod_beta split: option.splits)
qed

lemma keeps_rule:
  "keeps lower cfg f \<longleftrightarrow>
     classifyFaith lower (name f) \<noteq> [] \<and> classifyFaith lower (name f) \<in> set (religions cfg)
     \<and> (\<not> majorOnly cfg \<or> isMajorFestival lower f)"
  by (auto simp: keeps_def Let_def)

lemma titles_brief: "map (\<lambda>x. embed_title (snd (snd x))) xs = map (\<lambda>y. snd (snd y)) (map brief xs)"
  by (simp add: brief_def)

lemma guild_step_titles:
  "\<exists>n \<le> length (filter (keeps (toLowerCase w) (effective (guildConfigs s) (g_id g))) raw).
     map (\<lambda>x. embed_title (snd (snd x))) (sends (trace (state_of (guild_step w d ds raw g s))))
       = map (\<lambda>x. embed_title (snd (snd x))) (sends (trace s))
         @ (if target w g s = None then []
            else take n (map wish_title
                   (filter (keeps (toLowerCase w) (effective (guildConfigs s) (g_id g))) raw)))
     \<and> (completed (guild_step w d ds raw g s)
          \<longleftrightarrow> n = length (filter (keeps (toLowerCase w) (effective (guildConfigs s) (g_id g))) raw))"
proof -
  from guild_step_sends [of w s g raw d ds] obtain n where
    n: "n \<le> length (filter (keeps (toLowerCase w) (effective (guildConfigs s) (g_id g))) raw)"
    and e: "map brief (sends (trace (state_of (guild_step w d ds raw g s))))
       = map brief (sends (trace s))
         @ (case target w g s of
              None \<Rightarrow> []
            | Some c \<Rightarrow>
                take n (map (\<lambda>f. (ch_id c,
                    if mention_text (effective (guildConfigs s) (g_id g)) \<noteq> []
                    then Some (mention_text (effective (guildConfigs s) (g_id g))) else None,
                    wish_title f))
                  (filter (keeps (toLowerCase w) (effective (guildConfigs s) (g_id g))) raw)))"
    and c: "completed (guild_step w d ds raw g s)
          \<longleftrightarrow> n = length (filter (keeps (toLowerCase w) (effective (guildConfigs s) (g_id g))) raw)"
    by blast
  have "map (\<lambda>x. embed_title (snd (snd x))) (sends (trace (state_of (guild_step w d ds raw g s))))
       = map (\<lambda>x. embed_title (snd (snd x))) (sends (trace s))
         @ (if target w g s = None then []
            else take n (map wish_title
                   (filter (keeps (toLowerCase w) (effective (guildConfigs s) (g_id g))) raw)))"
    unfolding titles_brief e
    by (simp add: take_map comp_def split: option.splits)
  with n c show ?thesis by blast
qed

text \<open>
  C1. The filter of the daily run keeps an event exactly when the classification of its
  name is present (not the empty string), is one of the guild's enabled categories, and
  the guild's \<open>majorOnly\<close> is off or the event is major. With the enabled categories
  exactly hindu, an event classified muslim or christian, or not classified, is not kept,
  whatever \<open>majorOnly\<close> is. And in \<open>runDaily\<close>, when the run reaches a guild, the messages
  the guild gets are those of the events that satisfy the rule, in their order: all of them
  when a channel is found and the step of the guild is not cut short by something thrown,
  the first of them up to the throw otherwise, and none when no channel is found.
\<close>

theorem runDaily_filter_rule:
  "(keeps lower cfg f \<longleftrightarrow>
      classifyFaith lower (name f) \<noteq> [] \<and> classifyFaith lower (name f) \<in> set (religions cfg)
      \<and> (\<not> majorOnly cfg \<or> isMajorFestival lower f))
   \<and> (set (religions cfg) = {str ''hindu''} \<longrightarrow>
        classifyFaith lower (name f) \<in> {str ''muslim'', str ''christian'', []} \<longrightarrow>
        \<not> keeps lower cfg f)
   \<and> (run_guilds w d ds raw pre s = Done s1 \<longrightarrow>
        (\<exists>n \<le> length (filter (\<lambda>e. classifyFaith (toLowerCase w) (name e) \<noteq> []
                      \<and> classifyFaith (toLowerCase w) (name e)
                          \<in> set (religions (effective (guildConfigs s1) (g_id g)))
                      \<and> (\<not> majorOnly (effective (guildConfigs s1) (g_id g))
                          \<or> isMajorFestival (toLowerCase w) e)) raw).
           map (\<lambda>x. embed_title (snd (snd x)))
               (sends (trace (runDaily w d ds raw (pre @ [g]) s)))
             = map (\<lambda>x. embed_title (snd (snd x))) (sends (trace s1))
               @ (if target w g s1 = None then []
                  else take n (map wish_title
                         (filter (\<lambda>e. classifyFaith (toLowerCase w) (name e) \<noteq> []
                              \<and> classifyFaith (toLowerCase w) (name e)
                                  \<in> set (religions (effective (guildConfigs s1) (g_id g)))
                              \<and> (\<not> majorOnly (effective (guildConfigs s1) (g_id g))
                                  \<or> isMajorFestival (toLowerCase w) e)) raw)))
           \<and> (completed (guild_step w d ds raw g s1)
                \<longleftrightarrow> n = length (filter (\<lambda>e. classifyFaith (toLowerCase w) (name e) \<noteq> []
                      \<and> classifyFaith (toLowerCase w) (name e)
                          \<in> set (religions (effective (guildConfigs s1) (g_id g)))
                      \<and> (\<not> majorOnly (effective (guildConfigs s1) (g_id g))
                          \<or> isMajorFestival (toLowerCase w) e)) raw))))"
  (is "?A \<and> ?B \<and> ?C")
proof -
  have a: ?A by (rule keeps_rule)
  have ne: "str ''hindu'' \<noteq> str ''muslim''" "str ''hindu'' \<noteq> str ''christian''"
    "str ''hindu'' \<noteq> []"
    by code_simp+
  have b: ?B
  proof (intro impI)
    assume h: "set (religions cfg) = {str ''hindu''}"
      and c: "classifyFaith lower (name f) \<in> {str ''muslim'', str ''christian'', []}"
    from c ne have "classifyFaith lower (name f) \<noteq> str ''hindu''" by auto
    with h have "classifyFaith lower (name f) \<notin> set (religions cfg)" by simp
    then show "\<not> keeps lower cfg f" by (simp add: keeps_rule)
  qed
  have k: "keeps (toLowerCase w) (effective (guildConfigs s1) (g_id g)) =
      (\<lambda>e. classifyFaith (toLowerCase w) (name e) \<noteq> []
         \<and> classifyFaith (toLowerCase w) (name e)
             \<in> set (religions (effective (guildConfigs s1) (g_id g)))
         \<and> (\<not> majorOnly (effective (guildConfigs s1) (g_id g))
             \<or> isMajorFestival (toLowerCase w) e))"
    by (rule ext) (rule keeps_rule)
  have c: ?C
  proof (rule impI)
    assume r: "run_guilds w d ds raw pre s = Done s1"
    show "\<exists>n \<le> length (filter (\<lambda>e. classifyFaith (toLowerCase w) (name e) \<noteq> []
                      \<and> classifyFaith (toLowerCase w) (name e)
                          \<in> set (religions (effective (guildConfigs s1) (g_id g)))
                      \<and> (\<not> majorOnly (effective (guildConfigs s1) (g_id g))
                          \<or> isMajorFestival (toLowerCase w) e)) raw).
           map (\<lambda>x. embed_title (snd (snd x)))
               (sends (trace (runDaily w d ds raw (pre @ [g]) s)))
             = map (\<lambda>x. embed_title (snd (snd x))) (sends (trace s1))
               @ (if target w g s1 = None then []
                  else take n (map wish_title
                         (filter (\<lambda>e. classifyFaith (toLowerCase w) (name e) \<noteq> []
                              \<and> classifyFaith (toLowerCase w) (name e)
                                  \<in> set (religions (effective (guildConfigs s1) (g_id g)))
                              \<and> (\<not> majorOnly (effective (guildConfigs s1) (g_id g))
                                  \<or> isMajorFestival (toLowerCase w) e)) raw)))
           \<and> (completed (guild_step w d ds raw g s1)
                \<longleftrightarrow> n = length (filter (\<lambda>e. classifyFaith (toLowerCase w) (name e) \<noteq> []
                      \<and> classifyFaith (toLowerCase w) (name e)
                          \<in> set (religions (effective (guildConfigs s1) (g_id g)))
                      \<and> (\<not> majorOnly (effective (guildConfigs s1) (g_id g))
                          \<or> isMajorFestival (toLowerCase w) e)) raw))"
      using guild_step_titles [of w s1 g raw d ds]
      unfolding runDaily_snoc [OF r] k .
  qed
  show ?thesis by (intro conjI a b c)
qed


theorem runDaily_filter_rule_witness:
  "set (religions (defaultsFor\<lparr>religions := [str ''hindu''], majorOnly := False\<rparr>)) = {str ''hindu''}
   \<and> classifyFaith lower_ascii (name \<lparr>name = str ''Christmas'', description = [],
        type = [str ''Gazetted Holiday''], primary_type = str ''Gazetted Holiday''\<rparr>)
       \<in> {str ''muslim'', str ''christian'', []}
   \<and> \<not> keeps lower_ascii (defaultsFor\<lparr>religions := [str ''hindu''], majorOnly := False\<rparr>)
        \<lparr>name = str ''Christmas'', description = [], type = [str ''Gazetted Holiday''],
         primary_type = str ''Gazetted Holiday''\<rparr>
   \<and> run_guilds w_down (str ''2024-11-01'') (str ''Friday, 01 Nov 2024'') [ev_diwali] [] s0
       = Done s0
   \<and> map (\<lambda>x. embed_title (snd (snd x)))
        (sends (trace (runDaily w_down (str ''2024-11-01'') (str ''Friday, 01 Nov 2024'')
           [ev_diwali] ([] @ [g1]) s0)))
       = [wish_title ev_diwali]"
proof -
  let ?c = "defaultsFor\<lparr>religions := [str ''hindu''], majorOnly := False\<rparr>"
  let ?f = "\<lparr>name = str ''Christmas'', description = [], type = [str ''Gazetted Holiday''],
    primary_type = str ''Gazetted Holiday''\<rparr>"
  let ?D = "str ''2024-11-01''" and ?DS = "str ''Friday, 01 Nov 2024''"
  let ?K = "filter (\<lambda>e. classifyFaith (toLowerCase w_down) (name e) \<noteq> []
                      \<and> classifyFaith (toLowerCase w_down) (name e)
                          \<in> set (religions (effective (guildConfigs s0) (g_id g1)))
                      \<and> (\<not> majorOnly (effective (guildConfigs s0) (g_id g1))
                          \<or> isMajorFestival (toLowerCase w_down) e)) [ev_diwali]"
  have a: "set (religions ?c) = {str ''hindu''}" by simp
  have b: "classifyFaith lower_ascii (name ?f) \<in> {str ''muslim'', str ''christian'', []}"
    by code_simp
  note t = runDaily_filter_rule [of lower_ascii ?c ?f w_down ?D ?DS "[ev_diwali]" "[]" s0 s0 g1]
  from t a b have nk: "\<not> keeps lower_ascii ?c ?f" by blast
  have r: "run_guilds w_down ?D ?DS [ev_diwali] [] s0 = Done s0" by simp
  have K: "?K = [ev_diwali]" by code_simp
  have tg: "target w_down g1 s0 \<noteq> None" by code_simp
  have co: "completed (guild_step w_down ?D ?DS [ev_diwali] g1 s0)"
    by (rule guild_step_completes) (simp add: w_down_def)
  have e: "sends (trace s0) = []" by (simp add: s0_def sends_def)
  from t r obtain n where
    f1: "map (\<lambda>x. embed_title (snd (snd x)))
        (sends (trace (runDaily w_down ?D ?DS [ev_diwali] ([] @ [g1]) s0)))
       = map (\<lambda>x. embed_title (snd (snd x))) (sends (trace s0))
         @ (if target w_down g1 s0 = None then [] else take n (map wish_title ?K))"
    and f2: "completed (guild_step w_down ?D ?DS [ev_diwali] g1 s0) \<longleftrightarrow> n = length ?K"
    by blast
  from f2 co have "n = length ?K" by blast
  then have n1: "n = 1" unfolding K by simp
  from f1 [unfolded K] tg n1 e
  have "map (\<lambda>x. embed_title (snd (snd x)))
        (sends (trace (runDaily w_down ?D ?DS [ev_diwali] ([] @ [g1]) s0)))
       = [wish_title ev_diwali]"
    by simp
  with a b nk r show ?thesis by blast
qed

section \<open>The wish cache\<close>

lemma fallback_nonempty: "fallback nm \<noteq> []"
  by (simp add: fallback_def SPARKLES_def)

lemma cache_emit [simp]: "wishCache (emit e s) = wishCache s" "cacheFile (emit e s) = cacheFile s"
  by (simp_all add: emit_def)

lemma makeAIWish_hit:
  "wishCache s (cacheKey d ((str ''wish:'') @ nm)) = Some v \<Longrightarrow> v \<noteq> [] \<Longrightarrow>
   makeAIWish w d nm faith s = (v, s)"
  by (cases v) (simp_all add: makeAIWish_def cacheGet_def)

lemma pinned_cacheSet:
  "pinned k v s \<Longrightarrow> k' \<noteq> k \<Longrightarrow> pinned k v (cacheSet k' v' s)"
  by (simp add: pinned_def cacheSet_def Let_def)

lemma pinned_emit: "pinned k v (emit e s) = pinned k v s"
  by (simp add: pinned_def)

lemma pinned_makeAIWish:
  assumes "pinned k v s"
  shows "pinned k v (snd (makeAIWish w d nm faith s))"
proof (cases "k = cacheKey d ((str ''wish:'') @ nm)")
  case True
  with assms show ?thesis by (simp add: pinned_def makeAIWish_hit)
next
  case False
  with assms show ?thesis
    by (auto simp: makeAIWish_def use_fallback_def Let_def pinned_cacheSet pinned_emit
        split: option.splits list.splits gen_result.splits)
qed

lemma getFestivalImage_hit:
  "wishCache s (cacheKey d ((str ''img:'') @ nm)) = Some v \<Longrightarrow> v \<noteq> [] \<Longrightarrow>
   getFestivalImage w d nm faith s = (v, s)"
  by (cases v) (simp_all add: getFestivalImage_def cacheGet_def)

lemma cache_fetchPexelsImage:
  "wishCache (snd (fetchPexelsImage w q s)) = wishCache s"
  "cacheFile (snd (fetchPexelsImage w q s)) = cacheFile s"
  by (auto simp: fetchPexelsImage_def Let_def split: pexels_result.splits option.splits list.splits)

lemma pinned_fetchPexelsImage: "pinned k v (snd (fetchPexelsImage w q s)) = pinned k v s"
  by (simp add: pinned_def cache_fetchPexelsImage)

lemma pinned_getFestivalImage:
  assumes "pinned k v s"
  shows "pinned k v (snd (getFestivalImage w d nm faith s))"
proof (cases "k = cacheKey d ((str ''img:'') @ nm)")
  case True
  with assms show ?thesis by (simp add: pinned_def getFestivalImage_hit)
next
  case False
  obtain u s2 where f:
    "(if IMAGE_PROVIDER w = (str ''pexels'') then
        (let query = queryForImage nm faith (random w (length (trace s)));
             s1 = emit MathRandom s
         in fetchPexelsImage w query s1)
      else ([], s)) = (u, s2)"
    by force
  have "pinned k v s2"
  proof (cases "IMAGE_PROVIDER w = (str ''pexels'')")
    case True
    with f have "s2 = snd (fetchPexelsImage w
        (queryForImage nm faith (random w (length (trace s)))) (emit MathRandom s))"
      by (simp add: Let_def)
    with assms show ?thesis by (simp add: pinned_fetchPexelsImage pinned_emit)
  next
    case False
    with f assms show ?thesis by simp
  qed
  with False have "pinned k v (if u \<noteq> [] then cacheSet (cacheKey d ((str ''img:'') @ nm)) u s2 else s2)"
    by (simp add: pinned_cacheSet)
  with assms f show ?thesis
    unfolding getFestivalImage_def Let_def
    by (auto split: option.splits list.splits)
qed

lemma pinned_reload: "pinned k v s \<Longrightarrow> pinned k v (reload s)"
  by (simp add: pinned_def reload_def)

lemma pinned_run_ops: "pinned k v s \<Longrightarrow> pinned k v (run_ops ops s)"
proof (induction ops arbitrary: s)
  case Nil
  then show ?case by simp
next
  case (Cons op ops)
  then show ?case
    by (cases op) (simp_all add: pinned_makeAIWish pinned_getFestivalImage pinned_reload)
qed

lemma pinned_cacheSet_same: "v \<noteq> [] \<Longrightarrow> pinned k v (cacheSet k v s)"
  by (simp add: pinned_def cacheSet_def Let_def)

lemma later_calls_hit:
  assumes "pinned (cacheKey d ((str ''wish:'') @ nm)) v s"
  shows "makeAIWish w d nm faith (run_ops ops s) = (v, run_ops ops s)"
  using pinned_run_ops [OF assms, of ops] by (simp add: pinned_def makeAIWish_hit)

lemma makeAIWish_miss_writes:
  assumes "cacheGet s (cacheKey d ((str ''wish:'') @ nm)) \<in> {None, Some []}"
    and "makeAIWish w d nm faith s = (t, s')"
  shows "pinned (cacheKey d ((str ''wish:'') @ nm)) t s'"
  using assms
  by (auto simp: makeAIWish_def use_fallback_def Let_def pinned_cacheSet_same fallback_nonempty
      split: gen_result.splits option.splits if_splits)

lemma makeAIWish_fails:
  assumes "cacheGet s (cacheKey d ((str ''wish:'') @ nm)) \<in> {None, Some []}"
    and "\<not> genAI w \<or> \<not> accepted (gemini w (length (trace s)) nm faith)"
    and "makeAIWish w d nm faith s = (t, s')"
  shows "t = fallback nm"
  using assms
  by (auto simp: makeAIWish_def use_fallback_def Let_def accepted_def
      split: gen_result.splits option.splits if_splits)

text \<open>
  C2. When the first call of \<open>makeAIWish\<close> for a date and a name finds no entry and the
  text provider is not there, throws, or gives a text that is rejected (no text, or a text
  that has fewer than 220 code units once its white space, Unicode's included, is trimmed),
  the call returns
  the fallback text and writes it into the cache and its file under the key of the date and
  the name. After any further calls that use the cache, in any worlds, and any restarts,
  a call for the same date and name, in any world (so also with a provider that now
  answers well) returns that fallback and leaves the state as it is: the provider is not
  asked.
\<close>

theorem fallback_pinned:
  assumes "cacheGet s (cacheKey d ((str ''wish:'') @ nm)) \<in> {None, Some []}"
    and "\<not> genAI w \<or> \<not> accepted (gemini w (length (trace s)) nm faith)"
    and "makeAIWish w d nm faith s = (t, s')"
  shows "t = fallback nm
    \<and> wishCache s' (cacheKey d ((str ''wish:'') @ nm)) = Some (fallback nm)
    \<and> cacheFile s' (cacheKey d ((str ''wish:'') @ nm)) = Some (fallback nm)
    \<and> (\<forall>ops w' faith'.
          makeAIWish w' d nm faith' (run_ops ops s') = (fallback nm, run_ops ops s'))"
proof -
  have t: "t = fallback nm" using assms by (rule makeAIWish_fails)
  have p: "pinned (cacheKey d ((str ''wish:'') @ nm)) t s'" using assms(1,3) by (rule makeAIWish_miss_writes)
  show ?thesis using t p later_calls_hit [OF p] by (simp add: pinned_def)
qed

theorem fallback_pinned_witness:
  "cacheGet s0 (cacheKey (str ''2024-11-01'') ((str ''wish:'') @ (str ''Diwali''))) \<in> {None, Some []}
   \<and> \<not> accepted (gemini w_nbsp (length (trace s0)) (str ''Diwali'') (str ''hindu''))
   \<and> accepted (gemini w_up 1 (str ''Diwali'') (str ''hindu''))
   \<and> makeAIWish w_up (str ''2024-11-01'') (str ''Diwali'') (str ''hindu'')
        (snd (makeAIWish w_nbsp (str ''2024-11-01'') (str ''Diwali'') (str ''hindu'') s0))
      = (fallback (str ''Diwali''), snd (makeAIWish w_nbsp (str ''2024-11-01'') (str ''Diwali'') (str ''hindu'') s0))"
proof -
  have h1: "cacheGet s0 (cacheKey (str ''2024-11-01'') ((str ''wish:'') @ (str ''Diwali''))) \<in> {None, Some []}"
    by (simp add: s0_def cacheGet_def)
  have h2: "\<not> accepted (gemini w_nbsp (length (trace s0)) (str ''Diwali'') (str ''hindu''))"
    by code_simp
  have h3: "accepted (gemini w_up 1 (str ''Diwali'') (str ''hindu''))"
    by code_simp
  have h4: "makeAIWish w_nbsp (str ''2024-11-01'') (str ''Diwali'') (str ''hindu'') s0
      = (fst (makeAIWish w_nbsp (str ''2024-11-01'') (str ''Diwali'') (str ''hindu'') s0),
         snd (makeAIWish w_nbsp (str ''2024-11-01'') (str ''Diwali'') (str ''hindu'') s0))"
    by simp
  from fallback_pinned [OF h1 disjI2 [OF h2] h4]
  have "\<forall>ops w' faith'. makeAIWish w' (str ''2024-11-01'') (str ''Diwali'') faith'
      (run_ops ops (snd (makeAIWish w_nbsp (str ''2024-11-01'') (str ''Diwali'') (str ''hindu'') s0)))
     = (fallback (str ''Diwali''), run_ops ops (snd (makeAIWish w_nbsp (str ''2024-11-01'') (str ''Diwali'') (str ''hindu'') s0)))"
    by blast
  from this [rule_format, of w_up "(str ''hindu'')" "[]"] h1 h2 h3 show ?thesis by simp
qed

text \<open>
  C5. After a call of \<open>makeAIWish\<close> that wrote a value into the cache (the call found no
  entry), every later call for the same date and name returns the same text, and the trace
  of requests is as before the call: the provider is not asked again.
\<close>

theorem wish_cache_idempotent:
  assumes "cacheGet s (cacheKey d ((str ''wish:'') @ nm)) \<in> {None, Some []}"
    and "makeAIWish w d nm faith s = (t, s')"
  shows "t \<noteq> []
    \<and> wishCache s' (cacheKey d ((str ''wish:'') @ nm)) = Some t
    \<and> cacheFile s' (cacheKey d ((str ''wish:'') @ nm)) = Some t
    \<and> (\<forall>ops w' faith'.
          makeAIWish w' d nm faith' (run_ops ops s') = (t, run_ops ops s')
          \<and> trace (snd (makeAIWish w' d nm faith' (run_ops ops s'))) = trace (run_ops ops s'))"
proof -
  have p: "pinned (cacheKey d ((str ''wish:'') @ nm)) t s'" using assms by (rule makeAIWish_miss_writes)
  show ?thesis using p later_calls_hit [OF p] by (simp add: pinned_def)
qed

theorem wish_cache_idempotent_witness:
  "cacheGet s0 (cacheKey (str ''2024-11-01'') ((str ''wish:'') @ (str ''Diwali''))) \<in> {None, Some []}
   \<and> fst (makeAIWish w_up (str ''2024-11-01'') (str ''Diwali'') (str ''hindu'') s0) = replicate 220 (of_char (CHR ''a''))
   \<and> fst (makeAIWish w_down (str ''2024-11-01'') (str ''Diwali'') (str ''hindu'')
        (run_ops [ImageCall w_up (str ''2024-11-01'') (str ''Diwali'') (str ''hindu''), Restart]
           (snd (makeAIWish w_up (str ''2024-11-01'') (str ''Diwali'') (str ''hindu'') s0))))
      = replicate 220 (of_char (CHR ''a''))"
proof -
  have h1: "cacheGet s0 (cacheKey (str ''2024-11-01'') ((str ''wish:'') @ (str ''Diwali''))) \<in> {None, Some []}"
    by (simp add: s0_def cacheGet_def)
  have h3: "fst (makeAIWish w_up (str ''2024-11-01'') (str ''Diwali'') (str ''hindu'') s0) = replicate 220 (of_char (CHR ''a''))"
    by code_simp
  have h4: "makeAIWish w_up (str ''2024-11-01'') (str ''Diwali'') (str ''hindu'') s0
      = (fst (makeAIWish w_up (str ''2024-11-01'') (str ''Diwali'') (str ''hindu'') s0),
         snd (makeAIWish w_up (str ''2024-11-01'') (str ''Diwali'') (str ''hindu'') s0))"
    by simp
  from wish_cache_idempotent [OF h1 h4]
  have "\<forall>ops w' faith'. makeAIWish w' (str ''2024-11-01'') (str ''Diwali'') faith'
      (run_ops ops (snd (makeAIWish w_up (str ''2024-11-01'') (str ''Diwali'') (str ''hindu'') s0)))
     = (fst (makeAIWish w_up (str ''2024-11-01'') (str ''Diwali'') (str ''hindu'') s0),
        run_ops ops (snd (makeAIWish w_up (str ''2024-11-01'') (str ''Diwali'') (str ''hindu'') s0)))"
    by blast
  from this [rule_format, of w_down "(str ''hindu'')" "[ImageCall w_up (str ''2024-11-01'') (str ''Diwali'') (str ''hindu''), Restart]"]
    h1 h3 show ?thesis by (simp only: fst_conv simp_thms)
qed

section \<open>The festival image\<close>

lemma pick_index_interval:
  assumes "0 < n"
  shows "pick_index r n = int k \<longleftrightarrow> real k / real n \<le> r \<and> r < real (k + 1) / real n"
proof -
  have "pick_index r n = int k \<longleftrightarrow> real k \<le> r * real n \<and> r * real n < real k + 1"
    by (simp add: pick_index_def floor_eq_iff)
  also have "\<dots> \<longleftrightarrow> real k / real n \<le> r \<and> r < real (k + 1) / real n"
    using assms by (simp add: pos_divide_le_eq pos_less_divide_eq add.commute)
  finally show ?thesis .
qed

lemma pick_index_range:
  assumes "0 \<le> r" "r < 1" "0 < n"
  shows "0 \<le> pick_index r n \<and> pick_index r n < int n"
proof -
  have "0 \<le> r * real n" using assms by simp
  moreover have "r * real n < real n" using assms by simp
  ultimately show ?thesis by (simp add: pick_index_def floor_less_iff)
qed

lemma templates_nonempty: "0 < length (templates nm faith)"
  by (auto simp: templates_def base_def split: option.splits)

lemma queryForImage_member:
  assumes "0 \<le> r" "r < 1"
  shows "queryForImage nm faith r = templates nm faith ! nat (pick_index r (length (templates nm faith)))
    \<and> queryForImage nm faith r \<in> set (templates nm faith)"
proof -
  let ?T = "templates nm faith"
  from pick_index_range [OF assms templates_nonempty, of nm faith]
  have r: "0 \<le> pick_index r (length ?T)" "pick_index r (length ?T) < int (length ?T)"
    by simp_all
  then have "nat (pick_index r (length ?T)) < length ?T" by linarith
  then have "?T ! nat (pick_index r (length ?T)) \<in> set ?T" by (rule nth_mem)
  with r show ?thesis by (simp add: queryForImage_def Let_def)
qed

lemma find_first:
  "xs = pre @ p # post \<Longrightarrow> P p \<Longrightarrow> \<forall>x \<in> set pre. \<not> P x \<Longrightarrow> find P xs = Some p"
  by (induction pre arbitrary: xs) auto

lemma find_none: "\<forall>x \<in> set xs. \<not> P x \<Longrightarrow> find P xs = None"
  by (induction xs) auto

lemma fetchPexelsImage_off: "PEXELS_KEY w = [] \<Longrightarrow> fetchPexelsImage w q s = ([], s)"
  by (simp add: fetchPexelsImage_def)

lemma fetchPexelsImage_state:
  "PEXELS_KEY w \<noteq> [] \<Longrightarrow> snd (fetchPexelsImage w q s) = emit (PexelsSearch q (str ''10'')) s"
  by (auto simp: fetchPexelsImage_def Let_def split: pexels_result.splits option.splits list.splits)

lemma fetchPexelsImage_url:
  assumes "PEXELS_KEY w \<noteq> []"
  shows "pexels w (length (trace s)) q \<in> {PexelsThrew, PexelsJson None, PexelsJson (Some [])}
          \<longrightarrow> fst (fetchPexelsImage w q s) = []"
    and "\<forall>pre p post. pexels w (length (trace s)) q = PexelsJson (Some (pre @ p # post))
          \<and> height p \<le> width p \<and> (\<forall>x \<in> set pre. width x < height x)
          \<longrightarrow> fst (fetchPexelsImage w q s) = photo_url p"
    and "\<forall>p0 ps. pexels w (length (trace s)) q = PexelsJson (Some (p0 # ps))
          \<and> (\<forall>x \<in> set (p0 # ps). width x < height x)
          \<longrightarrow> fst (fetchPexelsImage w q s) = photo_url p0"
proof -
  have a: "fst (fetchPexelsImage w q s) = photo_url p"
    if "pexels w (length (trace s)) q = PexelsJson (Some (pre @ p # post))"
      "height p \<le> width p" "\<forall>x \<in> set pre. width x < height x" for pre p post
  proof -
    have "find (\<lambda>p. height p \<le> width p) (pre @ p # post) = Some p"
      using that(2,3) by (intro find_first [where pre = pre and post = post]) auto
    then show ?thesis
      using assms that(1)
      by (cases "pre @ p # post") (auto simp: fetchPexelsImage_def Let_def)
  qed
  have b: "fst (fetchPexelsImage w q s) = photo_url p0"
    if "pexels w (length (trace s)) q = PexelsJson (Some (p0 # ps))"
      "\<forall>x \<in> set (p0 # ps). width x < height x" for p0 ps
  proof -
    have "find (\<lambda>p. height p \<le> width p) (p0 # ps) = None"
      using that(2) by (intro find_none) auto
    then show ?thesis
      using assms that(1) by (simp add: fetchPexelsImage_def Let_def)
  qed
  show "pexels w (length (trace s)) q \<in> {PexelsThrew, PexelsJson None, PexelsJson (Some [])}
      \<longrightarrow> fst (fetchPexelsImage w q s) = []"
    using assms by (auto simp: fetchPexelsImage_def Let_def)
  from a show "\<forall>pre p post. pexels w (length (trace s)) q = PexelsJson (Some (pre @ p # post))
      \<and> height p \<le> width p \<and> (\<forall>x \<in> set pre. width x < height x)
      \<longrightarrow> fst (fetchPexelsImage w q s) = photo_url p"
    by blast
  from b show "\<forall>p0 ps. pexels w (length (trace s)) q = PexelsJson (Some (p0 # ps))
      \<and> (\<forall>x \<in> set (p0 # ps). width x < height x)
      \<longrightarrow> fst (fetchPexelsImage w q s) = photo_url p0"
    by blast
qed

lemma getFestivalImage_miss:
  assumes "cacheGet s (cacheKey d ((str ''img:'') @ nm)) \<in> {None, Some []}"
  shows "getFestivalImage w d nm faith s =
    (let us = (if IMAGE_PROVIDER w = (str ''pexels'')
               then fetchPexelsImage w (queryForImage nm faith (random w (length (trace s))))
                      (emit MathRandom s)
               else ([], s))
     in (fst us, if fst us \<noteq> [] then cacheSet (cacheKey d ((str ''img:'') @ nm)) (fst us) (snd us)
                 else snd us))"
  using assms by (auto simp: getFestivalImage_def Let_def case_prod_beta)

lemma cacheSet_maps:
  "wishCache (cacheSet k v s) = (wishCache s)(k \<mapsto> v)"
  "cacheFile (cacheSet k v s) = (wishCache s)(k \<mapsto> v)"
  by (simp_all add: cacheSet_def Let_def)

text \<open>
  C6, as amended. \<open>getFestivalImage\<close> on a cache miss. With the image provider \<open>pexels\<close>
  selected, its key set, and the number \<open>r\<close> drawn in \<open>[0, 1)\<close>: the query is the template
  at index \<open>\<lfloor>r * n\<rfloor>\<close> of the \<open>n\<close> templates of the category, so that template \<open>k\<close> is
  picked exactly for \<open>r\<close> in \<open>[k / n, (k + 1) / n)\<close>, an interval of length \<open>1 / n\<close> for each;
  one search is requested, for that query and 10 results per page; the result is the empty
  string when the provider throws or gives no photo, the URL of the first photo at least
  as wide as high when there is one, and the URL of the first photo otherwise. With
  another provider selected the result is empty and nothing is done; without the key the
  result is empty and no search is requested. An empty result leaves the cache and its file
  as they are; another result is written under the key of the date and the name.
\<close>

theorem getFestivalImage_on_miss:
  assumes miss: "cacheGet s (cacheKey d ((str ''img:'') @ nm)) \<in> {None, Some []}"
    and res: "getFestivalImage w d nm faith s = (url, s')"
    and r: "r = random w (length (trace s))"
    and T: "T = templates nm faith"
    and q: "q = queryForImage nm faith r"
    and ans: "ans = pexels w (Suc (length (trace s))) q"
  shows
    "(IMAGE_PROVIDER w = (str ''pexels'') \<and> PEXELS_KEY w \<noteq> [] \<and> 0 \<le> r \<and> r < 1 \<longrightarrow>
        q \<in> set T \<and> q = T ! nat (pick_index r (length T))
        \<and> (\<forall>k < length T. pick_index r (length T) = int k
              \<longleftrightarrow> real k / real (length T) \<le> r \<and> r < real (k + 1) / real (length T))
        \<and> trace s' = trace s @ [MathRandom, PexelsSearch q (str ''10'')]
        \<and> (ans \<in> {PexelsThrew, PexelsJson None, PexelsJson (Some [])} \<longrightarrow> url = [])
        \<and> (\<forall>pre p post. ans = PexelsJson (Some (pre @ p # post)) \<and> height p \<le> width p
              \<and> (\<forall>x \<in> set pre. width x < height x) \<longrightarrow> url = photo_url p)
        \<and> (\<forall>p0 ps. ans = PexelsJson (Some (p0 # ps))
              \<and> (\<forall>x \<in> set (p0 # ps). width x < height x) \<longrightarrow> url = photo_url p0))
     \<and> (IMAGE_PROVIDER w \<noteq> (str ''pexels'') \<longrightarrow> url = [] \<and> s' = s)
     \<and> (IMAGE_PROVIDER w = (str ''pexels'') \<and> PEXELS_KEY w = [] \<longrightarrow> url = [] \<and> s' = emit MathRandom s)
     \<and> (url = [] \<longrightarrow> wishCache s' = wishCache s \<and> cacheFile s' = cacheFile s)
     \<and> (url \<noteq> [] \<longrightarrow>
          wishCache s' = (wishCache s)(cacheKey d ((str ''img:'') @ nm) \<mapsto> url)
          \<and> cacheFile s' = (wishCache s)(cacheKey d ((str ''img:'') @ nm) \<mapsto> url))"
    (is "?A \<and> ?B \<and> ?C \<and> ?D \<and> ?E")
proof -
  let ?key = "cacheKey d ((str ''img:'') @ nm)"
  let ?us = "if IMAGE_PROVIDER w = (str ''pexels'') then fetchPexelsImage w q (emit MathRandom s)
             else ([], s)"
  have eq: "getFestivalImage w d nm faith s =
      (fst ?us, if fst ?us \<noteq> [] then cacheSet ?key (fst ?us) (snd ?us) else snd ?us)"
    using getFestivalImage_miss [OF miss, of w faith] unfolding Let_def q r .
  have url: "url = fst ?us"
    using arg_cong [OF trans [OF res [symmetric] eq], of fst] by (simp only: fst_conv)
  have s': "s' = (if url \<noteq> [] then cacheSet ?key url (snd ?us) else snd ?us)"
    using arg_cong [OF trans [OF res [symmetric] eq], of snd] unfolding url
    by (simp only: snd_conv)
  have cache_us: "wishCache (snd ?us) = wishCache s" "cacheFile (snd ?us) = cacheFile s"
    by (simp_all add: cache_fetchPexelsImage)
  have tr: "trace s' = trace (snd ?us)"
    by (simp add: s' trace_cacheSet)
  have a: ?A
  proof (rule impI)
    assume c: "IMAGE_PROVIDER w = (str ''pexels'') \<and> PEXELS_KEY w \<noteq> [] \<and> 0 \<le> r \<and> r < 1"
    then have on: "IMAGE_PROVIDER w = (str ''pexels'')" and k: "PEXELS_KEY w \<noteq> []"
      and r0: "0 \<le> r" and r1: "r < 1"
      by simp_all
    have u: "url = fst (fetchPexelsImage w q (emit MathRandom s))"
      using on url by simp
    have 4: "trace s' = trace s @ [MathRandom, PexelsSearch q (str ''10'')]"
      using on k tr by (simp add: fetchPexelsImage_state trace_emit)
    have len: "length (trace (emit MathRandom s)) = Suc (length (trace s))"
      by (simp add: trace_emit)
    note f = fetchPexelsImage_url [OF k, of "emit MathRandom s" q, unfolded len, folded ans u]
    note m = queryForImage_member [OF r0 r1, of nm faith, folded T, folded q]
    note 1 = m [THEN conjunct2] and 2 = m [THEN conjunct1]
    have 3: "\<forall>k < length T. pick_index r (length T) = int k
              \<longleftrightarrow> real k / real (length T) \<le> r \<and> r < real (k + 1) / real (length T)"
      using pick_index_interval [of "length T" r] templates_nonempty [of nm faith]
      unfolding T by blast
    show "q \<in> set T \<and> q = T ! nat (pick_index r (length T))
        \<and> (\<forall>k < length T. pick_index r (length T) = int k
              \<longleftrightarrow> real k / real (length T) \<le> r \<and> r < real (k + 1) / real (length T))
        \<and> trace s' = trace s @ [MathRandom, PexelsSearch q (str ''10'')]
        \<and> (ans \<in> {PexelsThrew, PexelsJson None, PexelsJson (Some [])} \<longrightarrow> url = [])
        \<and> (\<forall>pre p post. ans = PexelsJson (Some (pre @ p # post)) \<and> height p \<le> width p
              \<and> (\<forall>x \<in> set pre. width x < height x) \<longrightarrow> url = photo_url p)
        \<and> (\<forall>p0 ps. ans = PexelsJson (Some (p0 # ps))
              \<and> (\<forall>x \<in> set (p0 # ps). width x < height x) \<longrightarrow> url = photo_url p0)"
      by (intro conjI 1 2 3 4 f)
  qed
  have b: ?B
    using url s' by simp
  have c: ?C
    using url s' by (simp add: fetchPexelsImage_off)
  have d: ?D
    using cache_us by (simp add: s')
  have e: ?E
    using cache_us by (simp add: s' cacheSet_maps)
  show ?thesis by (intro conjI a b c d e)
qed

theorem getFestivalImage_on_miss_witness:
  "cacheGet s0 (cacheKey (str ''2024-11-01'') ((str ''img:'') @ (str ''Diwali''))) \<in> {None, Some []}
   \<and> IMAGE_PROVIDER w_photo = (str ''pexels'') \<and> PEXELS_KEY w_photo \<noteq> []
   \<and> 0 \<le> random w_photo (length (trace s0)) \<and> random w_photo (length (trace s0)) < 1
   \<and> height photo_landscape \<le> width photo_landscape
   \<and> width photo_portrait < height photo_portrait
   \<and> fst (getFestivalImage w_photo (str ''2024-11-01'') (str ''Diwali'') (str ''hindu'') s0)
       = photo_url photo_landscape"
proof -
  let ?q = "queryForImage (str ''Diwali'') (str ''hindu'') (random w_photo (length (trace s0)))"
  have h1: "cacheGet s0 (cacheKey (str ''2024-11-01'') ((str ''img:'') @ (str ''Diwali''))) \<in> {None, Some []}"
    by (simp add: s0_def cacheGet_def)
  have h2: "getFestivalImage w_photo (str ''2024-11-01'') (str ''Diwali'') (str ''hindu'') s0
      = (fst (getFestivalImage w_photo (str ''2024-11-01'') (str ''Diwali'') (str ''hindu'') s0),
         snd (getFestivalImage w_photo (str ''2024-11-01'') (str ''Diwali'') (str ''hindu'') s0))"
    by simp
  have h3: "IMAGE_PROVIDER w_photo = (str ''pexels'')" "PEXELS_KEY w_photo \<noteq> []"
    "0 \<le> random w_photo (length (trace s0))" "random w_photo (length (trace s0)) < 1"
    by (simp_all add: w_photo_def w_down_def str_def)
  have h4: "pexels w_photo (Suc (length (trace s0))) ?q
      = PexelsJson (Some ([photo_portrait] @ photo_landscape # []))"
    by (simp add: w_photo_def w_down_def)
  have h5: "height photo_landscape \<le> width photo_landscape"
    "\<forall>x \<in> set [photo_portrait]. width x < height x"
    by (simp_all add: photo_landscape_def photo_portrait_def)
  from getFestivalImage_on_miss [OF h1 h2 refl refl refl refl] h3
  have "\<forall>pre p post. pexels w_photo (Suc (length (trace s0))) ?q
          = PexelsJson (Some (pre @ p # post)) \<and> height p \<le> width p
          \<and> (\<forall>x \<in> set pre. width x < height x)
        \<longrightarrow> fst (getFestivalImage w_photo (str ''2024-11-01'') (str ''Diwali'') (str ''hindu'') s0) = photo_url p"
    by blast
  from this [rule_format, of "[photo_portrait]" photo_landscape "[]"] h4 h5
  have "fst (getFestivalImage w_photo (str ''2024-11-01'') (str ''Diwali'') (str ''hindu'') s0)
      = photo_url photo_landscape"
    by blast
  moreover have "width photo_portrait < height photo_portrait"
    by (simp add: photo_portrait_def)
  ultimately show ?thesis using h1 h3 h5(1) by blast
qed

text \<open>
  C6, as stated, fails: with another image provider selected, a miss requests nothing and
  gives the empty string, whatever the image search would answer.
\<close>

theorem getFestivalImage_gate_counterexample:
  "cacheGet s0 (cacheKey (str ''2024-11-01'') ((str ''img:'') @ (str ''Diwali''))) = None
   \<and> PEXELS_KEY w_other = (str ''key'')
   \<and> pexels w_other 1 (queryForImage (str ''Diwali'') (str ''hindu'') (random w_other 0))
       = PexelsJson (Some [photo_portrait, photo_landscape])
   \<and> height photo_landscape \<le> width photo_landscape
   \<and> getFestivalImage w_other (str ''2024-11-01'') (str ''Diwali'') (str ''hindu'') s0 = ([], s0)"
proof -
  have ne: "str ''unsplash'' \<noteq> str ''pexels''" by code_simp
  show ?thesis
    by (simp add: getFestivalImage_def cacheGet_def s0_def w_other_def w_photo_def w_down_def
        photo_landscape_def ne)
qed

section \<open>Configuration commands: theorems\<close>

lemma spread_stored_of: "spread d (stored_of c) = c"
  by (simp add: spread_def stored_of_def)

lemma effective_update:
  "effective (gc(g \<mapsto> stored_of c)) x = (if x = g then c else effective gc x)"
  by (simp add: effective_def spread_stored_of)

lemma modify_fields:
  "configFile (modify gid f s) = configFile s"
  "wishCache (modify gid f s) = wishCache s"
  "cacheFile (modify gid f s) = cacheFile s"
  "trace (modify gid f s) = trace s"
  "guildConfigs (modify gid f s) = (guildConfigs s)(gid \<mapsto> stored_of (f (effective (guildConfigs s) gid)))"
  by (simp_all add: modify_def)

lemma effective_modify:
  "effective (guildConfigs (modify gid f s)) x
   = (if x = gid then f (effective (guildConfigs s) gid) else effective (guildConfigs s) x)"
  by (simp add: modify_fields effective_update)

lemma send_reply_fields:
  "configFile (send_reply m s) = configFile s"
  "guildConfigs (send_reply m s) = guildConfigs s"
  "wishCache (send_reply m s) = wishCache s"
  "cacheFile (send_reply m s) = cacheFile s"
  "trace (send_reply m s) = trace s @ [InteractionReply \<lparr>content = m, ephemeral = True\<rparr>]"
  by (simp_all add: send_reply_def emit_def)

lemma went_wrong_fields:
  "configFile (went_wrong i s) = configFile s"
  "guildConfigs (went_wrong i s) = guildConfigs s"
  by (simp_all add: went_wrong_def send_reply_fields)

lemma saveConfigs_fields:
  "configFile (saveConfigs s) = guildConfigs s"
  "guildConfigs (saveConfigs s) = guildConfigs s"
  "wishCache (saveConfigs s) = wishCache s"
  "cacheFile (saveConfigs s) = cacheFile s"
  by (simp_all add: saveConfigs_def)

lemma command_names_distinct:
  "str ''setreligions'' \<noteq> str ''setwisheschannel''"
  "str ''setmention'' \<noteq> str ''setwisheschannel''"
  "str ''setmention'' \<noteq> str ''setreligions''"
  "str ''setmajor'' \<noteq> str ''setwisheschannel''"
  "str ''setmajor'' \<noteq> str ''setreligions''"
  "str ''setmajor'' \<noteq> str ''setmention''"
  by code_simp+

lemma onInteraction_command:
  assumes "isChatInputCommand i" "guildId i = Some gid" "gid \<noteq> []"
  shows "onInteraction w i s =
    (let s1 = modify gid (\<lambda>cfg. cfg) s
     in if commandName i = str ''setwisheschannel'' then setwisheschannel w i gid s1
        else if commandName i = str ''setreligions'' then setreligions w i gid s1
        else if commandName i = str ''setmention'' then setmention w i gid s1
        else if commandName i = str ''setmajor'' then setmajor i gid s1
        else s1)"
  using assms by (cases gid) (simp_all add: onInteraction_def Let_def)

text \<open>A command that fails validation: the settings of the guild are stored in full, and the
  rejection is sent.\<close>

lemma rejected_command_state:
  assumes "isChatInputCommand i" and "guildId i = Some gid" and "gid \<noteq> []"
    and "fails_validation w i msg"
  shows "onInteraction w i s = send_reply msg (modify gid (\<lambda>cfg. cfg) s)"
  using assms(4) unfolding fails_validation_def
proof (elim disjE conjE exE)
  fix ch
  assume "commandName i = str ''setwisheschannel''" "channel_options i (str ''channel'') = Some ch"
    "ch_type ch \<notin> {GuildText, PublicThread, PrivateThread}"
    "msg = str ''Please choose a text channel.''"
  then show ?thesis
    by (simp add: onInteraction_command [OF assms(1-3)] Let_def setwisheschannel_def)
next
  fix v
  assume h: "commandName i = str ''setreligions''" "string_options i (str ''list'') = Some v"
    "\<forall>x \<in> set (split_seps (toLowerCase w v)). trim x \<notin> set allowed"
    "msg = str ''Use any of: hindu, muslim, christian''"
  from h(3)
  have "filter (\<lambda>x. x \<in> set allowed) (map trim (split_seps (toLowerCase w v))) = []"
    by (simp add: filter_empty_conv)
  with h show ?thesis
    by (simp add: onInteraction_command [OF assms(1-3)] Let_def setreligions_def
        command_names_distinct)
next
  fix v
  assume "commandName i = str ''setmention''" "string_options i (str ''mention'') = Some v"
    "toLowerCase w v \<notin> {str ''everyone'', str ''here'', str ''none''}"
    "msg = str ''Choose: everyone | here | none''"
  then show ?thesis
    by (simp add: onInteraction_command [OF assms(1-3)] Let_def setmention_def
        command_names_distinct)
qed

text \<open>
  C7, as amended. A configuration command whose input fails validation: a channel that is
  neither a text channel nor a public or private thread for \<open>setwisheschannel\<close>, a list none
  of whose pieces is in the vocabulary for \<open>setreligions\<close>, a value other than everyone,
  here, none for \<open>setmention\<close>. The handler sends the rejection reply of the command, to the
  invoking user, and nothing else; the settings file is not written, the settings of every
  guild (the defaults merged with what is stored) are as before, what is stored for the
  other guilds is as before, and the cache is as before. What is stored in memory for the
  invoking guild is replaced by its settings in full.
\<close>

theorem rejected_command_effect:
  assumes "isChatInputCommand i" and "guildId i = Some gid" and "gid \<noteq> []"
    and "fails_validation w i msg"
  shows "trace (onInteraction w i s)
           = trace s @ [InteractionReply \<lparr>content = msg, ephemeral = True\<rparr>]
    \<and> configFile (onInteraction w i s) = configFile s
    \<and> (\<forall>g. effective (guildConfigs (onInteraction w i s)) g = effective (guildConfigs s) g)
    \<and> (\<forall>g. g \<noteq> gid \<longrightarrow> guildConfigs (onInteraction w i s) g = guildConfigs s g)
    \<and> guildConfigs (onInteraction w i s) gid = Some (stored_of (effective (guildConfigs s) gid))
    \<and> wishCache (onInteraction w i s) = wishCache s
    \<and> cacheFile (onInteraction w i s) = cacheFile s"
  unfolding rejected_command_state [OF assms]
  by (simp add: send_reply_fields modify_fields effective_update)

theorem rejected_command_effect_witness:
  "isChatInputCommand i_mention_bad \<and> guildId i_mention_bad = Some (str ''g1'')
   \<and> str ''g1'' \<noteq> []
   \<and> commandName i_mention_bad = str ''setmention''
   \<and> string_options i_mention_bad (str ''mention'') = Some (str ''Loud'')
   \<and> toLowerCase w_down (str ''Loud'') \<notin> {str ''everyone'', str ''here'', str ''none''}
   \<and> trace (onInteraction w_down i_mention_bad s0)
       = trace s0 @ [InteractionReply \<lparr>content = str ''Choose: everyone | here | none'',
                                     ephemeral = True\<rparr>]
   \<and> configFile (onInteraction w_down i_mention_bad s0) = configFile s0
   \<and> effective (guildConfigs (onInteraction w_down i_mention_bad s0)) (str ''g1'')
       = effective (guildConfigs s0) (str ''g1'')"
proof -
  have h: "isChatInputCommand i_mention_bad" "guildId i_mention_bad = Some (str ''g1'')"
    "commandName i_mention_bad = str ''setmention''"
    "string_options i_mention_bad (str ''mention'') = Some (str ''Loud'')"
    by (simp_all add: i_mention_bad_def i_base_def)
  have l: "toLowerCase w_down (str ''Loud'') \<notin> {str ''everyone'', str ''here'', str ''none''}"
    by code_simp
  have n: "str ''g1'' \<noteq> []" by (simp add: str_def)
  from h l have f: "fails_validation w_down i_mention_bad (str ''Choose: everyone | here | none'')"
    unfolding fails_validation_def by blast
  from rejected_command_effect [OF h(1) h(2) n f, of s0] h n l
  show ?thesis by blast
qed

text \<open>
  C7, as stated, fails: the rejected command changes what is stored for the invoking guild,
  from nothing to its settings in full, here the defaults.
\<close>

theorem rejected_command_stores_counterexample:
  "isChatInputCommand i_mention_bad \<and> guildId i_mention_bad = Some (str ''g1'')
   \<and> commandName i_mention_bad = str ''setmention''
   \<and> string_options i_mention_bad (str ''mention'') = Some (str ''Loud'')
   \<and> toLowerCase w_down (str ''Loud'') = str ''loud''
   \<and> trace (onInteraction w_down i_mention_bad s0)
       = [InteractionReply \<lparr>content = str ''Choose: everyone | here | none'',
                            ephemeral = True\<rparr>]
   \<and> guildConfigs s0 (str ''g1'') = None
   \<and> guildConfigs (onInteraction w_down i_mention_bad s0) (str ''g1'')
       = Some (stored_of defaultsFor)"
proof -
  have h: "isChatInputCommand i_mention_bad" "guildId i_mention_bad = Some (str ''g1'')"
    "commandName i_mention_bad = str ''setmention''"
    "string_options i_mention_bad (str ''mention'') = Some (str ''Loud'')"
    by (simp_all add: i_mention_bad_def i_base_def)
  have l: "toLowerCase w_down (str ''Loud'') \<notin> {str ''everyone'', str ''here'', str ''none''}"
    by code_simp
  have l': "toLowerCase w_down (str ''Loud'') = str ''loud''" by code_simp
  have n: "str ''g1'' \<noteq> []" by (simp add: str_def)
  from h l have f: "fails_validation w_down i_mention_bad (str ''Choose: everyone | here | none'')"
    unfolding fails_validation_def by blast
  have e: "effective (guildConfigs s0) (str ''g1'') = defaultsFor"
    by (simp add: s0_def effective_def spread_def no_overrides_def defaultsFor_def)
  have "trace (onInteraction w_down i_mention_bad s0)
       = [InteractionReply \<lparr>content = str ''Choose: everyone | here | none'', ephemeral = True\<rparr>]"
    "guildConfigs s0 (str ''g1'') = None"
    "guildConfigs (onInteraction w_down i_mention_bad s0) (str ''g1'') = Some (stored_of defaultsFor)"
    unfolding rejected_command_state [OF h(1) h(2) n f]
    by (simp_all add: send_reply_fields modify_fields e) (simp_all add: s0_def)
  with h l' show ?thesis by blast
qed

end
